theory Spec2Isabelle
  imports Complex_Main "HOL-Library.AList"
begin

section \<open>Data model\<close>

text \<open>
  The recommendation engine of the store builder (class \<open>RecommendationEngine\<close>) talks to
  PostgreSQL through query builders. The embedding keeps every table as the list of its
  rows in insertion order and every query as a function on such lists.

  \<^item> Timestamps are integers (milliseconds since the epoch). Every insert of the engine
    leaves the timestamp column to its default \<open>now()\<close>, so a stored timestamp is never NULL.
  \<^item> A nullable integer column is an \<open>int option\<close>; \<open>None\<close> is SQL NULL and JavaScript
    \<open>undefined\<close>/\<open>null\<close>.
  \<^item> JavaScript numbers that carry scores are modelled as exact reals: \<open>0.4\<close> is
    \<open>4/10\<close>. Counts and limits are natural numbers (a limit is a row count).
  \<^item> The clock (\<open>NOW()\<close>, \<open>new Date()\<close>) is the explicit argument \<open>now\<close>.
\<close>

datatype action = View | AddToCart | Purchase | RemoveFromCart | Search

record customerBehaviorRow =
  cb_customerId :: "int option"
  cb_sessionId :: string
  cb_action :: action
  cb_productId :: "int option"
  cb_searchQuery :: "string option"
  cb_timestamp :: int
  cb_deviceType :: "string option"
  cb_source :: "string option"

record productViewRow =
  pv_customerId :: "int option"
  pv_sessionId :: string
  pv_productId :: int
  pv_viewDuration :: "int option"
  pv_timestamp :: int

record recommendationRow =
  rec_customerId :: "int option"
  rec_sessionId :: string
  rec_productId :: int
  rec_recommendationType :: string
  rec_score :: real
  rec_reasons :: "string list"
  rec_shown :: bool
  rec_clicked :: bool
  rec_purchased :: bool
  rec_shownAt :: "int option"
  rec_clickedAt :: "int option"
  rec_purchasedAt :: "int option"
  rec_createdAt :: int

record productCategoryMappingRow =
  pcm_productId :: int
  pcm_categoryId :: int

text \<open>
  One store database (schema \<open>store-schema.ts\<close>). Of the tables \<open>customers\<close> and
  \<open>products\<close> only the primary keys matter here: they are the targets of the foreign keys
  of \<open>customer_behavior\<close>.
\<close>

record storeDb =
  customers :: "int list"
  products :: "int list"
  customerBehavior :: "customerBehaviorRow list"
  productViews :: "productViewRow list"
  recommendations :: "recommendationRow list"
  productCategoryMappings :: "productCategoryMappingRow list"

text \<open>A row of the main database's \<open>stores\<close> table: its key and its \<open>databaseUrl\<close>.\<close>

record store =
  st_id :: int
  st_databaseUrl :: string

text \<open>
  The whole system: the \<open>stores\<close> table of the main database, the database found behind
  each connection URL, the console (\<open>console.error\<close>) and the environment variable
  \<open>DATABASE_URL\<close>.
\<close>

record state =
  stores :: "store list"
  databases :: "string \<Rightarrow> storeDb"
  console :: "string list"
  env_DATABASE_URL :: string

datatype error = StoreNotFound int | StorageError string

datatype recType = Collaborative | ContentBased | Trending | RecentlyViewed | Hybrid

record recommendationRequest =
  req_storeId :: int
  req_customerId :: "int option"
  req_sessionId :: string
  req_limit :: "nat option"
  req_excludeProductIds :: "int list option"
  req_type :: "recType option"

record recommendationResult =
  productId :: int
  score :: real
  type :: string
  reasons :: "string list"

section \<open>JavaScript and SQL building blocks\<close>

text \<open>\<open>if (x)\<close> on an optional number: \<open>undefined\<close>, \<open>null\<close> and \<open>0\<close> are falsy.\<close>

definition truthy :: "int option \<Rightarrow> bool" where
  "truthy v = (case v of None \<Rightarrow> False | Some n \<Rightarrow> n \<noteq> 0)"

text \<open>A destructuring default \<open>{ x = d }\<close> applies when the field is undefined.\<close>

definition dflt :: "'a \<Rightarrow> 'a option \<Rightarrow> 'a" where
  "dflt d v = (case v of None \<Rightarrow> d | Some x \<Rightarrow> x)"

text \<open>
  \<open>[...new Set(xs)]\<close>: elements are added in order, an element already present is
  skipped, and iteration follows insertion order.
\<close>

definition set_add :: "'a list \<Rightarrow> 'a \<Rightarrow> 'a list" where
  "set_add acc x = (if x \<in> set acc then acc else acc @ [x])"

definition new_Set :: "'a list \<Rightarrow> 'a list" where
  "new_Set xs = foldl set_add [] xs"

text \<open>
  SQL three-valued logic, as far as a \<open>WHERE\<close> clause sees it (a row is kept only when the
  condition is TRUE). \<open>x IN (vs)\<close> is TRUE when \<open>x\<close> is not NULL and occurs in \<open>vs\<close>.
  \<open>x NOT IN (vs)\<close> is TRUE when \<open>vs\<close> is empty, or \<open>x\<close> is not NULL, does not occur in
  \<open>vs\<close> and \<open>vs\<close> holds no NULL.
\<close>

definition sql_in :: "'a option \<Rightarrow> 'a option list \<Rightarrow> bool" where
  "sql_in x vs = (x \<noteq> None \<and> x \<in> set vs)"

definition sql_not_in :: "'a option \<Rightarrow> 'a option list \<Rightarrow> bool" where
  "sql_not_in x vs = (vs = [] \<or> (x \<noteq> None \<and> None \<notin> set vs \<and> x \<notin> set vs))"

text \<open>
  An id list written into a statement as \<open>${ids.join(',')}\<close> inside a \<open>sql\<close> template:
  the query builder binds the joined text as one parameter, and the database reads the
  parameter of \<open>product_id NOT IN ($1)\<close> as an integer. The text of a one-element list is
  that integer. Every other text (\<open>2,3\<close>, or the empty text) is rejected with
  \<open>invalid input syntax for type integer\<close>, and the statement raises.
\<close>

definition joined :: "int list \<Rightarrow> error + int" where
  "joined ids =
     (case ids of
        [x] \<Rightarrow> Inr x
      | _ \<Rightarrow> Inl (StorageError ''invalid input syntax for type integer''))"

text \<open>
  \<open>sql`product_id NOT IN (${ids.join(',')})`\<close>: the error of the binding, or the
  condition on the column.
\<close>

definition not_in_joined :: "int list \<Rightarrow> error + (int option \<Rightarrow> bool)" where
  "not_in_joined ids =
     (case joined ids of
        Inl e \<Rightarrow> Inl e
      | Inr x \<Rightarrow> Inr (\<lambda>p. sql_not_in p [Some x]))"

text \<open>
  The exclusion condition shared by the strategies:
  \<open>excludeProductIds.length > 0 ? sql`product_id NOT IN (${excludeProductIds.join(',')})` : sql`1=1`\<close>.
\<close>

definition exclusion :: "int list \<Rightarrow> error + (int option \<Rightarrow> bool)" where
  "exclusion excludeProductIds =
     (if excludeProductIds \<noteq> [] then not_in_joined excludeProductIds else Inr (\<lambda>p. True))"

text \<open>
  A row is selected by a condition when the condition could be built and is TRUE of the
  row. A statement whose parameter is rejected selects nothing; the queries below raise
  in that case, and the \<open>catch\<close> of the strategy returns the empty list.
\<close>

definition selects :: "error + ('a \<Rightarrow> bool) \<Rightarrow> 'a \<Rightarrow> bool" where
  "selects condition x = (case condition of Inl e \<Rightarrow> False | Inr P \<Rightarrow> P x)"

definition not_excluded :: "int option \<Rightarrow> int list \<Rightarrow> bool" where
  "not_excluded p excludeProductIds = selects (exclusion excludeProductIds) p"

text \<open>\<open>sql`product_id NOT IN (${viewedProductIds.join(',')})`\<close> on a column that is not NULL.\<close>

definition not_viewed :: "int \<Rightarrow> int list \<Rightarrow> bool" where
  "not_viewed p viewedProductIds = selects (not_in_joined viewedProductIds) (Some p)"

text \<open>
  \<open>GROUP BY key\<close>: one group per distinct key (NULL keys form one group). SQL leaves the
  order of groups open; the model fixes one.
\<close>

definition group_by :: "('r \<Rightarrow> 'k) \<Rightarrow> 'r list \<Rightarrow> ('k \<times> 'r list) list" where
  "group_by key rows = map (\<lambda>k. (k, filter (\<lambda>r. key r = k) rows)) (remdups (map key rows))"

text \<open>
  \<open>ORDER BY f DESC\<close> and \<open>Array.prototype.sort((a, b) => f(b) - f(a))\<close>: a stable sort,
  largest first.
\<close>

definition order_by_desc :: "('r \<Rightarrow> 'b::linordered_ab_group_add) \<Rightarrow> 'r list \<Rightarrow> 'r list" where
  "order_by_desc f rows = sort_key (\<lambda>r. - f r) rows"

text \<open>\<open>INTERVAL 'n days'\<close> in milliseconds.\<close>

definition interval_days :: "int \<Rightarrow> int" where
  "interval_days n = n * 86400000"

section \<open>Tenant resolution\<close>

text \<open>\<open>storage.getStore\<close>: \<open>select from stores where id = ...\<close>, first row or undefined.\<close>

definition getStore :: "state \<Rightarrow> int \<Rightarrow> store option" where
  "getStore s storeId = find (\<lambda>st. st_id st = storeId) (stores s)"

text \<open>
  \<open>MultiDatabaseManager.getStoreDbByUrl\<close> memoises one connection per URL. A connection
  is identified with the URL it was opened on, so the cache is not part of the state.
\<close>

definition getStoreDbByUrl :: "string \<Rightarrow> string" where
  "getStoreDbByUrl databaseUrl = databaseUrl"

text \<open>\<open>RecommendationEngine.getStoreDatabase\<close> throws when the store does not exist.\<close>

definition getStoreDatabase :: "state \<Rightarrow> int \<Rightarrow> error + string" where
  "getStoreDatabase s storeId =
     (case getStore s storeId of
        None \<Rightarrow> Inl (StoreNotFound storeId)
      | Some st \<Rightarrow> Inr (getStoreDbByUrl (st_databaseUrl st)))"

text \<open>
  \<open>MultiDatabaseManager.createStoreDatabase\<close>: writes \<open>process.env.DATABASE_URL\<close> into the
  store's row and returns the connection for it.
\<close>

definition createStoreDatabase :: "state \<Rightarrow> int \<Rightarrow> state \<times> string" where
  "createStoreDatabase s storeId =
     (let databaseUrl = env_DATABASE_URL s in
      (s\<lparr>stores := map (\<lambda>st. if st_id st = storeId then st\<lparr>st_databaseUrl := databaseUrl\<rparr> else st)
                        (stores s)\<rparr>,
       getStoreDbByUrl databaseUrl))"

section \<open>Behavior tracking\<close>

record trackBehaviorData =
  tb_customerId :: "int option"
  tb_sessionId :: string
  tb_storeId :: int
  tb_productId :: "int option"
  tb_action :: action
  tb_searchQuery :: "string option"
  tb_timeSpent :: "int option"

text \<open>
  A foreign key column (\<open>references(() => customers.id)\<close>) accepts NULL or a key of the
  referenced table; anything else makes the insert fail.
\<close>

definition references :: "int option \<Rightarrow> int list \<Rightarrow> bool" where
  "references v keys = (case v of None \<Rightarrow> True | Some k \<Rightarrow> k \<in> set keys)"

definition insert_customerBehavior :: "storeDb \<Rightarrow> customerBehaviorRow \<Rightarrow> error + storeDb" where
  "insert_customerBehavior db row =
     (if references (cb_customerId row) (customers db) \<and> references (cb_productId row) (products db)
      then Inr (db\<lparr>customerBehavior := customerBehavior db @ [row]\<rparr>)
      else Inl (StorageError ''insert or update on table customer_behavior violates foreign key constraint''))"

text \<open>The body of the \<open>try\<close> block of \<open>trackBehavior\<close>.\<close>

definition trackBehavior_try :: "state \<Rightarrow> int \<Rightarrow> trackBehaviorData \<Rightarrow> error + state" where
  "trackBehavior_try s now data =
     (case getStoreDatabase s (tb_storeId data) of
        Inl e \<Rightarrow> Inl e
      | Inr storeDb \<Rightarrow>
          (case insert_customerBehavior (databases s storeDb)
                  \<lparr>cb_customerId = tb_customerId data,
                   cb_sessionId = tb_sessionId data,
                   cb_action = tb_action data,
                   cb_productId = tb_productId data,
                   cb_searchQuery = tb_searchQuery data,
                   cb_timestamp = now,
                   cb_deviceType = Some ''desktop'',
                   cb_source = Some ''direct''\<rparr> of
             Inl e \<Rightarrow> Inl e
           | Inr db' \<Rightarrow> Inr (s\<lparr>databases := (databases s)(storeDb := db')\<rparr>)))"

text \<open>\<open>trackBehavior\<close>: the \<open>catch\<close> writes to the console and swallows the error.\<close>

definition trackBehavior :: "state \<Rightarrow> int \<Rightarrow> trackBehaviorData \<Rightarrow> error + state" where
  "trackBehavior s now data =
     (case trackBehavior_try s now data of
        Inl e \<Rightarrow> Inr (s\<lparr>console := console s @ [''Error tracking customer behavior:'']\<rparr>)
      | Inr s' \<Rightarrow> Inr s')"

section \<open>Recommendation strategies\<close>

text \<open>
  \<open>customerId ? eq(productViews.customerId, customerId) : eq(productViews.sessionId, sessionId)\<close>
\<close>

definition viewed_by :: "int option \<Rightarrow> string \<Rightarrow> productViewRow \<Rightarrow> bool" where
  "viewed_by customerId sessionId r =
     (if truthy customerId then pv_customerId r = customerId else pv_sessionId r = sessionId)"

subsection \<open>Recently viewed\<close>

text \<open>
  The rows selected by the \<open>WHERE\<close> clause of the recently-viewed query, when the
  statement runs.
\<close>

definition recentViews :: "storeDb \<Rightarrow> int \<Rightarrow> recommendationRequest \<Rightarrow> productViewRow list" where
  "recentViews db now request =
     filter (\<lambda>r. viewed_by (req_customerId request) (req_sessionId request) r
                 \<and> pv_timestamp r > now - interval_days 30
                 \<and> not_excluded (Some (pv_productId r)) (dflt [] (req_excludeProductIds request)))
            (productViews db)"

text \<open>\<open>MAX(timestamp)\<close> over the selected views of one product.\<close>

definition lastViewed :: "productViewRow list \<Rightarrow> int \<Rightarrow> int" where
  "lastViewed rows p = Max (set (map pv_timestamp (filter (\<lambda>r. pv_productId r = p) rows)))"

definition recentlyViewedRows :: "storeDb \<Rightarrow> int \<Rightarrow> recommendationRequest \<Rightarrow> (int \<times> int) list" where
  "recentlyViewedRows db now request =
     (let rows = recentViews db now request in
      take (dflt 10 (req_limit request))
        (order_by_desc snd
           (map (\<lambda>(p, g). (p, Max (set (map pv_timestamp g)))) (group_by pv_productId rows))))"

text \<open>
  The body of \<open>generateRecentlyViewedRecommendations\<close> after the tenant is resolved: the
  query raises when the exclusion parameter is rejected, and the \<open>catch\<close> returns \<open>[]\<close>.
\<close>

definition recentlyViewedQuery :: "storeDb \<Rightarrow> int \<Rightarrow> recommendationRequest \<Rightarrow> recommendationResult list" where
  "recentlyViewedQuery db now request =
     (case exclusion (dflt [] (req_excludeProductIds request)) of
        Inl e \<Rightarrow> []
      | Inr condition \<Rightarrow>
          map (\<lambda>(index, item).
                 \<lparr>productId = fst item,
                  score = max (0.9 - (real index * 0.1)) 0.1,
                  type = ''recently_viewed'',
                  reasons = [''You viewed this recently'']\<rparr>)
              (enumerate 0 (recentlyViewedRows db now request)))"

definition generateRecentlyViewedRecommendations ::
    "state \<Rightarrow> int \<Rightarrow> recommendationRequest \<Rightarrow> error + recommendationResult list" where
  "generateRecentlyViewedRecommendations s now request =
     (case getStoreDatabase s (req_storeId request) of
        Inl e \<Rightarrow> Inl e
      | Inr storeDb \<Rightarrow> Inr (recentlyViewedQuery (databases s storeDb) now request))"

subsection \<open>Collaborative\<close>

text \<open>
  The subquery \<open>SELECT product_id FROM customer_behavior WHERE customer_id = c AND
  action = 'purchase'\<close>.
\<close>

definition purchasedBy :: "customerBehaviorRow list \<Rightarrow> int option \<Rightarrow> int option list" where
  "purchasedBy rows customerId =
     map cb_productId (filter (\<lambda>r. cb_customerId r = customerId \<and> cb_action r = Purchase) rows)"

text \<open>
  Customers with more than one purchase row on a product the customer purchased, by
  number of such rows, the first 20.
\<close>

definition similarCustomers :: "storeDb \<Rightarrow> int option \<Rightarrow> (int option \<times> nat) list" where
  "similarCustomers db customerId =
     (let rows = customerBehavior db;
          selected = filter (\<lambda>r. cb_action r = Purchase
                                 \<and> sql_in (cb_productId r) (purchasedBy rows customerId)) rows;
          grouped = map (\<lambda>(c, g). (c, length g)) (group_by cb_customerId selected);
          having = filter (\<lambda>(c, n). n > 1) grouped
      in take 20 (order_by_desc (\<lambda>(c, n). int n) having))"

text \<open>
  Purchases of the similar customers that the customer has not made, as selected when
  the statement runs. \<open>inArray\<close> on an empty list selects nothing (the query builder either
  rejects the empty list, which the \<open>catch\<close> turns into the empty result, or renders it as
  \<open>false\<close>).
\<close>

definition recommendedProducts ::
    "storeDb \<Rightarrow> recommendationRequest \<Rightarrow> int option list \<Rightarrow> (int option \<times> nat) list" where
  "recommendedProducts db request similarCustomerIds =
     (let rows = customerBehavior db;
          selected = filter (\<lambda>r. cb_action r = Purchase
                                 \<and> sql_in (cb_customerId r) similarCustomerIds
                                 \<and> sql_not_in (cb_productId r) (purchasedBy rows (req_customerId request))
                                 \<and> not_excluded (cb_productId r) (dflt [] (req_excludeProductIds request)))
                            rows;
          grouped = map (\<lambda>(p, g). (p, length g)) (group_by cb_productId selected)
      in take (dflt 10 (req_limit request)) (order_by_desc (\<lambda>(p, n). int n) grouped))"

text \<open>\<open>.filter(item => item.productId)\<close> followed by the use of \<open>item.productId!\<close>.\<close>

fun withProductId :: "int option \<times> 'a \<Rightarrow> (int \<times> 'a) list" where
  "withProductId (None, x) = []"
| "withProductId (Some p, x) = (if p \<noteq> 0 then [(p, x)] else [])"

text \<open>
  The body of \<open>generateCollaborativeRecommendations\<close> after the tenant is resolved. The
  second query carries the exclusion condition: it raises when the parameter is rejected,
  and the \<open>catch\<close> returns \<open>[]\<close>.
\<close>

definition collaborativeQuery :: "storeDb \<Rightarrow> recommendationRequest \<Rightarrow> recommendationResult list" where
  "collaborativeQuery db request =
     (let customerId = req_customerId request in
      if \<not> truthy customerId then []
      else
        let similar = similarCustomers db customerId in
        if similar = [] then []
        else
          let similarCustomerIds = filter (\<lambda>id. id \<noteq> customerId) (map fst similar) in
          case exclusion (dflt [] (req_excludeProductIds request)) of
            Inl e \<Rightarrow> []
          | Inr condition \<Rightarrow>
              map (\<lambda>item.
                     \<lparr>productId = fst item,
                      score = min (real (snd item) / 10) 1,
                      type = ''collaborative'',
                      reasons = [''Customers like you also purchased this'']\<rparr>)
                  (concat (map withProductId (recommendedProducts db request similarCustomerIds))))"

definition generateCollaborativeRecommendations ::
    "state \<Rightarrow> recommendationRequest \<Rightarrow> error + recommendationResult list" where
  "generateCollaborativeRecommendations s request =
     (case getStoreDatabase s (req_storeId request) of
        Inl e \<Rightarrow> Inl e
      | Inr storeDb \<Rightarrow> Inr (collaborativeQuery (databases s storeDb) request))"

subsection \<open>Content based\<close>

text \<open>The product ids of the five most recent view rows of the customer or session.\<close>

definition viewedProducts :: "storeDb \<Rightarrow> recommendationRequest \<Rightarrow> int list" where
  "viewedProducts db request =
     map pv_productId
       (take 5 (order_by_desc pv_timestamp
          (filter (viewed_by (req_customerId request) (req_sessionId request)) (productViews db))))"

text \<open>The categories of the viewed products with their number of mapping rows, most frequent first.\<close>

definition viewedCategories :: "storeDb \<Rightarrow> int list \<Rightarrow> (int \<times> nat) list" where
  "viewedCategories db viewedProductIds =
     order_by_desc (\<lambda>(c, n). int n)
       (map (\<lambda>(c, g). (c, length g))
          (group_by pcm_categoryId
             (filter (\<lambda>m. pcm_productId m \<in> set viewedProductIds) (productCategoryMappings db))))"

text \<open>
  The mapping rows selected by the \<open>WHERE\<close> clause of the similar-products query, when
  the statement runs.
\<close>

definition similarMappings ::
    "storeDb \<Rightarrow> recommendationRequest \<Rightarrow> int list \<Rightarrow> int list \<Rightarrow> productCategoryMappingRow list" where
  "similarMappings db request viewedProductIds topCategoryIds =
     filter (\<lambda>m. pcm_categoryId m \<in> set topCategoryIds
                 \<and> not_viewed (pcm_productId m) viewedProductIds
                 \<and> not_excluded (Some (pcm_productId m)) (dflt [] (req_excludeProductIds request)))
            (productCategoryMappings db)"

definition similarProducts ::
    "storeDb \<Rightarrow> recommendationRequest \<Rightarrow> int list \<Rightarrow> int list \<Rightarrow> (int \<times> nat) list" where
  "similarProducts db request viewedProductIds topCategoryIds =
     take (dflt 10 (req_limit request))
       (order_by_desc (\<lambda>(p, n). int n)
          (map (\<lambda>(p, g). (p, length g))
             (group_by pcm_productId (similarMappings db request viewedProductIds topCategoryIds))))"

definition topCategories :: "storeDb \<Rightarrow> recommendationRequest \<Rightarrow> int list" where
  "topCategories db request = map fst (take 3 (viewedCategories db (viewedProducts db request)))"

text \<open>
  The body of \<open>generateContentBasedRecommendations\<close> after the tenant is resolved. The
  third query carries the viewed products and the exclusions as joined parameters: it
  raises when one of them is rejected, and the \<open>catch\<close> returns \<open>[]\<close>.
\<close>

definition contentBasedQuery :: "storeDb \<Rightarrow> recommendationRequest \<Rightarrow> recommendationResult list" where
  "contentBasedQuery db request =
     (let viewedProductIds = viewedProducts db request in
      if viewedProductIds = [] then []
      else
        let productCategories = viewedCategories db viewedProductIds in
        if productCategories = [] then []
        else
          let topCategoryIds = map fst (take 3 productCategories) in
          case not_in_joined viewedProductIds of
            Inl e \<Rightarrow> []
          | Inr viewedCondition \<Rightarrow>
              (case exclusion (dflt [] (req_excludeProductIds request)) of
                 Inl e \<Rightarrow> []
               | Inr condition \<Rightarrow>
                   map (\<lambda>item.
                          \<lparr>productId = fst item,
                           score = min (real (snd item) / real (length topCategoryIds)) 1,
                           type = ''content_based'',
                           reasons = [''Similar to products you viewed'']\<rparr>)
                       (similarProducts db request viewedProductIds topCategoryIds)))"

definition generateContentBasedRecommendations ::
    "state \<Rightarrow> recommendationRequest \<Rightarrow> error + recommendationResult list" where
  "generateContentBasedRecommendations s request =
     (case getStoreDatabase s (req_storeId request) of
        Inl e \<Rightarrow> Inl e
      | Inr storeDb \<Rightarrow> Inr (contentBasedQuery (databases s storeDb) request))"

subsection \<open>Trending\<close>

text \<open>\<open>CASE WHEN action = 'view' THEN 1 WHEN action = 'purchase' THEN 3 ELSE 0 END\<close>\<close>

definition eventScore :: "action \<Rightarrow> nat" where
  "eventScore a = (if a = View then 1 else if a = Purchase then 3 else 0)"

text \<open>The rows selected by the \<open>WHERE\<close> clause of the trending query, when the statement runs.\<close>

definition trendingEvents :: "storeDb \<Rightarrow> int \<Rightarrow> recommendationRequest \<Rightarrow> customerBehaviorRow list" where
  "trendingEvents db now request =
     filter (\<lambda>r. cb_timestamp r > now - interval_days 7
                 \<and> cb_action r \<in> set [View, Purchase]
                 \<and> not_excluded (cb_productId r) (dflt [] (req_excludeProductIds request)))
            (customerBehavior db)"

definition totalScore :: "customerBehaviorRow list \<Rightarrow> nat" where
  "totalScore g = sum_list (map (\<lambda>r. eventScore (cb_action r)) g)"

text \<open>The grouped rows with their \<open>totalScore\<close>, after \<open>HAVING COUNT(*) > 2\<close>, order and limit.\<close>

definition trendingProducts ::
    "storeDb \<Rightarrow> int \<Rightarrow> recommendationRequest \<Rightarrow> (int option \<times> nat) list" where
  "trendingProducts db now request =
     take (dflt 10 (req_limit request))
       (order_by_desc (\<lambda>(p, t). int t)
          (map (\<lambda>(p, g). (p, totalScore g))
             (filter (\<lambda>(p, g). length g > 2)
                (group_by cb_productId (trendingEvents db now request)))))"

text \<open>\<open>trendingProducts[0]?.totalScore || 1\<close>\<close>

definition maxScore :: "(int option \<times> nat) list \<Rightarrow> nat" where
  "maxScore rows = (case rows of [] \<Rightarrow> 1 | item # _ \<Rightarrow> if snd item = 0 then 1 else snd item)"

text \<open>
  The body of \<open>generateTrendingRecommendations\<close> after the tenant is resolved: the query
  raises when the exclusion parameter is rejected, and the \<open>catch\<close> returns \<open>[]\<close>.
\<close>

definition trendingQuery :: "storeDb \<Rightarrow> int \<Rightarrow> recommendationRequest \<Rightarrow> recommendationResult list" where
  "trendingQuery db now request =
     (case exclusion (dflt [] (req_excludeProductIds request)) of
        Inl e \<Rightarrow> []
      | Inr condition \<Rightarrow>
          (let rows = trendingProducts db now request in
           map (\<lambda>item.
                  \<lparr>productId = fst item,
                   score = real (snd item) / real (maxScore rows),
                   type = ''trending'',
                   reasons = [''Trending this week'']\<rparr>)
               (concat (map withProductId rows))))"

definition generateTrendingRecommendations ::
    "state \<Rightarrow> int \<Rightarrow> recommendationRequest \<Rightarrow> error + recommendationResult list" where
  "generateTrendingRecommendations s now request =
     (case getStoreDatabase s (req_storeId request) of
        Inl e \<Rightarrow> Inl e
      | Inr storeDb \<Rightarrow> Inr (trendingQuery (databases s storeDb) now request))"

subsection \<open>Hybrid\<close>

text \<open>\<open>r => ({ ...r, score: r.score * w })\<close>\<close>

definition weighted :: "real \<Rightarrow> recommendationResult \<Rightarrow> recommendationResult" where
  "weighted w r = r\<lparr>score := score r * w\<rparr>"

text \<open>
  One round of the \<open>forEach\<close> over \<open>allRecommendations\<close>. The \<open>Map\<close> \<open>productScores\<close> is an
  association list in insertion order; changing the entry of a key leaves its position.
\<close>

definition merge_rec ::
    "(int \<times> recommendationResult) list \<Rightarrow> recommendationResult \<Rightarrow> (int \<times> recommendationResult) list" where
  "merge_rec productScores rec =
     (case map_of productScores (productId rec) of
        Some existing \<Rightarrow>
          AList.update (productId rec)
            (existing\<lparr>score := score existing + score rec,
                      reasons := new_Set (reasons existing @ reasons rec),
                      type := ''hybrid''\<rparr>)
            productScores
      | None \<Rightarrow> productScores @ [(productId rec, rec\<lparr>type := ''hybrid''\<rparr>)])"

text \<open>\<open>Array.from(productScores.values())\<close> after the loop.\<close>

definition mergeRecommendations :: "recommendationResult list \<Rightarrow> recommendationResult list" where
  "mergeRecommendations allRecommendations = map snd (foldl merge_rec [] allRecommendations)"

definition allRecommendations ::
    "recommendationResult list \<Rightarrow> recommendationResult list \<Rightarrow> recommendationResult list
       \<Rightarrow> recommendationResult list \<Rightarrow> recommendationResult list" where
  "allRecommendations collaborative contentBased trending recentlyViewed =
     map (weighted 0.4) collaborative @ map (weighted 0.3) contentBased
       @ map (weighted 0.2) trending @ map (weighted 0.1) recentlyViewed"

definition combine ::
    "nat \<Rightarrow> recommendationResult list \<Rightarrow> recommendationResult list \<Rightarrow> recommendationResult list
       \<Rightarrow> recommendationResult list \<Rightarrow> recommendationResult list" where
  "combine limit collaborative contentBased trending recentlyViewed =
     take limit
       (order_by_desc score
          (mergeRecommendations (allRecommendations collaborative contentBased trending recentlyViewed)))"

text \<open>
  \<open>generateHybridRecommendations\<close>: the four strategies see the same state; if one of
  them throws, \<open>Promise.all\<close> rejects and the \<open>catch\<close> returns the empty list.
\<close>

definition generateHybridRecommendations ::
    "state \<Rightarrow> int \<Rightarrow> recommendationRequest \<Rightarrow> recommendationResult list" where
  "generateHybridRecommendations s now request =
     (let limit = dflt 10 (req_limit request) in
      case generateCollaborativeRecommendations s
             (request\<lparr>req_limit := Some (nat \<lceil>real limit * 0.3\<rceil>)\<rparr>) of
        Inl e \<Rightarrow> []
      | Inr collaborative \<Rightarrow>
      (case generateContentBasedRecommendations s
              (request\<lparr>req_limit := Some (nat \<lceil>real limit * 0.3\<rceil>)\<rparr>) of
        Inl e \<Rightarrow> []
      | Inr contentBased \<Rightarrow>
      (case generateTrendingRecommendations s now
              (request\<lparr>req_limit := Some (nat \<lceil>real limit * 0.2\<rceil>)\<rparr>) of
        Inl e \<Rightarrow> []
      | Inr trending \<Rightarrow>
      (case generateRecentlyViewedRecommendations s now
              (request\<lparr>req_limit := Some (nat \<lceil>real limit * 0.2\<rceil>)\<rparr>) of
        Inl e \<Rightarrow> []
      | Inr recentlyViewed \<Rightarrow>
          combine limit collaborative contentBased trending recentlyViewed))))"

text \<open>\<open>generateRecommendations\<close>: the \<open>switch\<close> on the type, inside a \<open>try\<close> that returns \<open>[]\<close>.\<close>

definition generateRecommendations ::
    "state \<Rightarrow> int \<Rightarrow> recommendationRequest \<Rightarrow> recommendationResult list" where
  "generateRecommendations s now request =
     (case (case dflt Hybrid (req_type request) of
              Collaborative \<Rightarrow> generateCollaborativeRecommendations s request
            | ContentBased \<Rightarrow> generateContentBasedRecommendations s request
            | Trending \<Rightarrow> generateTrendingRecommendations s now request
            | RecentlyViewed \<Rightarrow> generateRecentlyViewedRecommendations s now request
            | Hybrid \<Rightarrow> Inr (generateHybridRecommendations s now request)) of
        Inl e \<Rightarrow> []
      | Inr results \<Rightarrow> results)"

section \<open>Feedback\<close>

datatype feedbackAction = Shown | Clicked | Purchased

record feedbackData =
  fb_storeId :: int
  fb_customerId :: "int option"
  fb_sessionId :: string
  fb_productId :: int
  fb_action :: feedbackAction

text \<open>
  The \<open>WHERE\<close> clause of the update:
  \<open>and(customerId ? eq(customerId, ...) : eq(sessionId, ...), eq(productId, ...))\<close>.
\<close>

definition feedback_matches :: "feedbackData \<Rightarrow> recommendationRow \<Rightarrow> bool" where
  "feedback_matches data r =
     ((if truthy (fb_customerId data) then rec_customerId r = fb_customerId data
       else rec_sessionId r = fb_sessionId data)
      \<and> rec_productId r = fb_productId data)"

text \<open>\<open>updateData[action] = true; updateData[`${action}At`] = new Date()\<close>\<close>

definition updateData :: "feedbackAction \<Rightarrow> int \<Rightarrow> recommendationRow \<Rightarrow> recommendationRow" where
  "updateData a now r =
     (case a of
        Shown \<Rightarrow> r\<lparr>rec_shown := True, rec_shownAt := Some now\<rparr>
      | Clicked \<Rightarrow> r\<lparr>rec_clicked := True, rec_clickedAt := Some now\<rparr>
      | Purchased \<Rightarrow> r\<lparr>rec_purchased := True, rec_purchasedAt := Some now\<rparr>)"

text \<open>
  \<open>trackRecommendationFeedback\<close>: the tenant is resolved before the \<open>try\<close>, so an unknown
  store is thrown to the caller; the update itself touches the rows the \<open>WHERE\<close> clause
  selects.
\<close>

definition trackRecommendationFeedback :: "state \<Rightarrow> int \<Rightarrow> feedbackData \<Rightarrow> error + state" where
  "trackRecommendationFeedback s now data =
     (case getStoreDatabase s (fb_storeId data) of
        Inl e \<Rightarrow> Inl e
      | Inr storeDb \<Rightarrow>
          Inr (s\<lparr>databases := (databases s)
                 (storeDb := (databases s storeDb)
                    \<lparr>recommendations :=
                       map (\<lambda>r. if feedback_matches data r then updateData (fb_action data) now r else r)
                           (recommendations (databases s storeDb))\<rparr>)\<rparr>))"

section \<open>The merge rule as stated\<close>

text \<open>
  The merge of the hybrid strategy in the words of its description: the entries of one
  product, their summed score and the union of their reasons.
\<close>

definition occurrences :: "recommendationResult list \<Rightarrow> int \<Rightarrow> recommendationResult list" where
  "occurrences recs p = filter (\<lambda>r. productId r = p) recs"

definition mergedReasons :: "string list list \<Rightarrow> string list" where
  "mergedReasons rss = (case rss of [rs] \<Rightarrow> rs | _ \<Rightarrow> new_Set (concat rss))"

definition mergedEntry :: "recommendationResult list \<Rightarrow> int \<Rightarrow> recommendationResult" where
  "mergedEntry recs p =
     \<lparr>productId = p,
      score = sum_list (map score (occurrences recs p)),
      type = ''hybrid'',
      reasons = mergedReasons (map reasons (occurrences recs p))\<rparr>"

section \<open>The content-based rule as stated\<close>



section \<open>The collaborative scenario as stated\<close>

text \<open>The products a customer has purchased.\<close>

definition purchasedProducts :: "storeDb \<Rightarrow> int \<Rightarrow> int option set" where
  "purchasedProducts db c = set (purchasedBy (customerBehavior db) (Some c))"

text \<open>The number of purchase rows of a customer on some products.\<close>

definition purchaseEvents :: "storeDb \<Rightarrow> int \<Rightarrow> int option set \<Rightarrow> nat" where
  "purchaseEvents db c ps =
     length (filter (\<lambda>r. cb_customerId r = Some c \<and> cb_action r = Purchase \<and> cb_productId r \<in> ps)
                    (customerBehavior db))"

text \<open>
  The scenario of two customers: \<open>C\<close> has purchased exactly \<open>A\<close> and \<open>B\<close>; \<open>D\<close> has
  purchased exactly \<open>A\<close>, \<open>B\<close> and \<open>X\<close>, the latter once; every other customer has at most
  one purchase row on \<open>A\<close> or \<open>B\<close>.
\<close>

definition purchaseScenario :: "storeDb \<Rightarrow> int \<Rightarrow> int \<Rightarrow> int \<Rightarrow> int \<Rightarrow> int \<Rightarrow> bool" where
  "purchaseScenario db C D A B X \<longleftrightarrow>
     C \<noteq> 0 \<and> C \<noteq> D \<and> A \<noteq> B \<and> X \<noteq> A \<and> X \<noteq> B \<and> X \<noteq> 0 \<and>
     purchasedProducts db C = {Some A, Some B} \<and>
     purchasedProducts db D = {Some A, Some B, Some X} \<and>
     purchaseEvents db D {Some X} = 1 \<and>
     (\<forall>E. E \<noteq> C \<and> E \<noteq> D \<longrightarrow> purchaseEvents db E {Some A, Some B} \<le> 1)"

section \<open>Example states\<close>

definition emptyDb :: storeDb where
  "emptyDb = \<lparr>customers = [], products = [], customerBehavior = [], productViews = [],
              recommendations = [], productCategoryMappings = []\<rparr>"

definition ex_recommendation :: "string \<Rightarrow> int \<Rightarrow> recommendationRow" where
  "ex_recommendation sid p =
     \<lparr>rec_customerId = None, rec_sessionId = sid, rec_productId = p,
      rec_recommendationType = ''trending'', rec_score = 1,
      rec_reasons = [''Trending this week''],
      rec_shown = True, rec_clicked = False, rec_purchased = False,
      rec_shownAt = Some 50, rec_clickedAt = None, rec_purchasedAt = None,
      rec_createdAt = 40\<rparr>"

definition ex_feedback_state :: state where
  "ex_feedback_state =
     \<lparr>stores = [\<lparr>st_id = 1, st_databaseUrl = ''db1''\<rparr>],
      databases = (\<lambda>u. emptyDb)
        (''db1'' := emptyDb\<lparr>recommendations :=
                              [ex_recommendation ''s1'' 5, ex_recommendation ''s2'' 5]\<rparr>),
      console = [],
      env_DATABASE_URL = ''main''\<rparr>"

definition ex_feedback :: feedbackData where
  "ex_feedback = \<lparr>fb_storeId = 1, fb_customerId = None, fb_sessionId = ''s1'',
                  fb_productId = 5, fb_action = Clicked\<rparr>"

definition ex_track :: "int \<Rightarrow> int option \<Rightarrow> int option \<Rightarrow> trackBehaviorData" where
  "ex_track sid c p =
     \<lparr>tb_customerId = c, tb_sessionId = ''s1'', tb_storeId = sid, tb_productId = p,
      tb_action = View, tb_searchQuery = None, tb_timeSpent = None\<rparr>"

definition ex_view :: "int \<Rightarrow> int \<Rightarrow> productViewRow" where
  "ex_view p t = \<lparr>pv_customerId = None, pv_sessionId = ''s1'', pv_productId = p,
                  pv_viewDuration = Some 0, pv_timestamp = t\<rparr>"

definition ex_views_state :: state where
  "ex_views_state =
     \<lparr>stores = [\<lparr>st_id = 1, st_databaseUrl = ''db1''\<rparr>],
      databases = (\<lambda>u. emptyDb)
        (''db1'' := emptyDb\<lparr>productViews := [ex_view 1 5, ex_view 2 7, ex_view 1 9, ex_view 3 6]\<rparr>),
      console = [],
      env_DATABASE_URL = ''main''\<rparr>"

definition ex_request :: recommendationRequest where
  "ex_request = \<lparr>req_storeId = 1, req_customerId = None, req_sessionId = ''s1'',
                  req_limit = None, req_excludeProductIds = None, req_type = None\<rparr>"

definition ex_recent :: "recommendationResult list" where
  "ex_recent =
     [\<lparr>productId = 1, score = 9 / 10, type = ''recently_viewed'', reasons = [''You viewed this recently'']\<rparr>,
      \<lparr>productId = 2, score = 8 / 10, type = ''recently_viewed'', reasons = [''You viewed this recently'']\<rparr>,
      \<lparr>productId = 3, score = 7 / 10, type = ''recently_viewed'', reasons = [''You viewed this recently'']\<rparr>]"

definition ex_event :: "int option \<Rightarrow> action \<Rightarrow> int option \<Rightarrow> int \<Rightarrow> customerBehaviorRow" where
  "ex_event c a p t =
     \<lparr>cb_customerId = c, cb_sessionId = ''s9'', cb_action = a, cb_productId = p,
      cb_searchQuery = None, cb_timestamp = t,
      cb_deviceType = Some ''desktop'', cb_source = Some ''direct''\<rparr>"

definition ex_shop_db :: storeDb where
  "ex_shop_db =
     \<lparr>customers = [1, 2],
      products = [10, 11, 12],
      customerBehavior =
        [ex_event (Some 1) Purchase (Some 10) 0, ex_event (Some 1) Purchase (Some 11) 0,
         ex_event (Some 2) Purchase (Some 10) 0, ex_event (Some 2) Purchase (Some 11) 0,
         ex_event (Some 2) Purchase (Some 12) 0,
         ex_event None View (Some 12) 900000000, ex_event None View (Some 12) 900000001,
         ex_event None View (Some 12) 900000002],
      productViews =
        [\<lparr>pv_customerId = Some 1, pv_sessionId = ''s1'', pv_productId = 10,
          pv_viewDuration = Some 45, pv_timestamp = 950000000\<rparr>],
      recommendations = [],
      productCategoryMappings =
        [\<lparr>pcm_productId = 10, pcm_categoryId = 7\<rparr>, \<lparr>pcm_productId = 12, pcm_categoryId = 7\<rparr>]\<rparr>"

definition ex_shop :: state where
  "ex_shop =
     \<lparr>stores = [\<lparr>st_id = 1, st_databaseUrl = ''db1''\<rparr>],
      databases = (\<lambda>u. emptyDb)(''db1'' := ex_shop_db),
      console = [],
      env_DATABASE_URL = ''main''\<rparr>"

definition ex_shop_request :: "int list option \<Rightarrow> recommendationRequest" where
  "ex_shop_request excl =
     \<lparr>req_storeId = 1, req_customerId = Some 1, req_sessionId = ''s1'',
      req_limit = None, req_excludeProductIds = excl, req_type = None\<rparr>"

definition ex_hybrid :: "recommendationResult list" where
  "ex_hybrid =
     [\<lparr>productId = 12, score = 54 / 100, type = ''hybrid'',
       reasons = [''Customers like you also purchased this'', ''Similar to products you viewed'',
                  ''Trending this week'']\<rparr>,
      \<lparr>productId = 10, score = 9 / 100, type = ''hybrid'',
       reasons = [''You viewed this recently'']\<rparr>]"

definition ex_excluding_request :: recommendationRequest where
  "ex_excluding_request =
     \<lparr>req_storeId = 1, req_customerId = None, req_sessionId = ''s1'', req_limit = None,
      req_excludeProductIds = Some [2], req_type = Some RecentlyViewed\<rparr>"

definition ex_excluding_two_request :: recommendationRequest where
  "ex_excluding_two_request =
     \<lparr>req_storeId = 1, req_customerId = None, req_sessionId = ''s1'', req_limit = None,
      req_excludeProductIds = Some [2, 3], req_type = Some RecentlyViewed\<rparr>"

definition ex_excluding_result :: "recommendationResult list" where
  "ex_excluding_result =
     [\<lparr>productId = 1, score = 9 / 10, type = ''recently_viewed'', reasons = [''You viewed this recently'']\<rparr>,
      \<lparr>productId = 3, score = 8 / 10, type = ''recently_viewed'', reasons = [''You viewed this recently'']\<rparr>]"

definition ex_collaborative :: "recommendationResult list" where
  "ex_collaborative =
     [\<lparr>productId = 12, score = 1 / 10, type = ''collaborative'',
       reasons = [''Customers like you also purchased this'']\<rparr>]"

definition ex_contentBased :: "recommendationResult list" where
  "ex_contentBased =
     [\<lparr>productId = 12, score = 1, type = ''content_based'',
       reasons = [''Similar to products you viewed'']\<rparr>]"

definition ex_trendingList :: "recommendationResult list" where
  "ex_trendingList =
     [\<lparr>productId = 12, score = 1, type = ''trending'', reasons = [''Trending this week'']\<rparr>]"

definition ex_recentlyViewed :: "recommendationResult list" where
  "ex_recentlyViewed =
     [\<lparr>productId = 10, score = 9 / 10, type = ''recently_viewed'',
       reasons = [''You viewed this recently'']\<rparr>]"

text \<open>A series of \<open>trackBehavior\<close> calls at one instant.\<close>

fun track_all :: "state \<Rightarrow> int \<Rightarrow> trackBehaviorData list \<Rightarrow> state" where
  "track_all s now [] = s"
| "track_all s now (d # ds) =
     (case trackBehavior s now d of Inl e \<Rightarrow> s | Inr s' \<Rightarrow> track_all s' now ds)"

text \<open>The state with more rows in the behavior log of one database.\<close>

definition with_events :: "state \<Rightarrow> string \<Rightarrow> customerBehaviorRow list \<Rightarrow> state" where
  "with_events s url rows =
     s\<lparr>databases := (databases s)
         (url := (databases s url)\<lparr>customerBehavior := customerBehavior (databases s url) @ rows\<rparr>)\<rparr>"

definition ex_tracked_row :: "int option \<Rightarrow> customerBehaviorRow" where
  "ex_tracked_row p =
     \<lparr>cb_customerId = None, cb_sessionId = ''s1'', cb_action = View, cb_productId = p,
      cb_searchQuery = None, cb_timestamp = 500,
      cb_deviceType = Some ''desktop'', cb_source = Some ''direct''\<rparr>"

definition ex_empty_shop :: state where
  "ex_empty_shop =
     \<lparr>stores = [\<lparr>st_id = 1, st_databaseUrl = ''db1''\<rparr>],
      databases = (\<lambda>u. emptyDb\<lparr>products := [1]\<rparr>),
      console = [],
      env_DATABASE_URL = ''main''\<rparr>"

definition ex_anonymous_views :: "trackBehaviorData list" where
  "ex_anonymous_views =
     map (ex_track 1 None) [None, None, None, None, None, Some 1, Some 1, Some 1]"

definition ex_anonymous_db :: storeDb where
  "ex_anonymous_db =
     emptyDb\<lparr>products := [1],
             customerBehavior :=
               map ex_tracked_row [None, None, None, None, None, Some 1, Some 1, Some 1]\<rparr>"

definition ex_trending_request :: "int \<Rightarrow> recommendationRequest" where
  "ex_trending_request sid =
     \<lparr>req_storeId = sid, req_customerId = None, req_sessionId = ''s1'', req_limit = None,
      req_excludeProductIds = None, req_type = Some Trending\<rparr>"

definition ex_two_stores :: state where
  "ex_two_stores =
     \<lparr>stores = [\<lparr>st_id = 1, st_databaseUrl = ''db1''\<rparr>, \<lparr>st_id = 2, st_databaseUrl = ''db2''\<rparr>],
      databases = (\<lambda>u. emptyDb\<lparr>products := [7]\<rparr>),
      console = [],
      env_DATABASE_URL = ''main''\<rparr>"

definition ex_provisioned :: state where
  "ex_provisioned = fst (createStoreDatabase (fst (createStoreDatabase ex_two_stores 1)) 2)"

definition ex_repeat_db :: storeDb where
  "ex_repeat_db =
     emptyDb\<lparr>customers := [1, 2, 3],
             products := [10, 11, 12],
             customerBehavior :=
               [ex_event (Some 1) Purchase (Some 10) 0, ex_event (Some 1) Purchase (Some 11) 0,
                ex_event (Some 2) Purchase (Some 10) 0, ex_event (Some 2) Purchase (Some 11) 0,
                ex_event (Some 2) Purchase (Some 12) 0,
                ex_event (Some 3) Purchase (Some 10) 0, ex_event (Some 3) Purchase (Some 10) 1,
                ex_event (Some 3) Purchase (Some 12) 0]\<rparr>"

definition ex_twice_db :: storeDb where
  "ex_twice_db =
     emptyDb\<lparr>customers := [1, 2],
             products := [10, 11, 12],
             customerBehavior :=
               [ex_event (Some 1) Purchase (Some 10) 0, ex_event (Some 1) Purchase (Some 11) 0,
                ex_event (Some 2) Purchase (Some 10) 0, ex_event (Some 2) Purchase (Some 11) 0,
                ex_event (Some 2) Purchase (Some 12) 0, ex_event (Some 2) Purchase (Some 12) 1]\<rparr>"

definition ex_zero_db :: storeDb where
  "ex_zero_db =
     emptyDb\<lparr>customers := [1, 2],
             products := [0, 10, 11],
             customerBehavior :=
               [ex_event (Some 1) Purchase (Some 10) 0, ex_event (Some 1) Purchase (Some 11) 0,
                ex_event (Some 2) Purchase (Some 10) 0, ex_event (Some 2) Purchase (Some 11) 0,
                ex_event (Some 2) Purchase (Some 0) 0]\<rparr>"

definition ex_shop_of :: "storeDb \<Rightarrow> state" where
  "ex_shop_of db =
     \<lparr>stores = [\<lparr>st_id = 1, st_databaseUrl = ''db1''\<rparr>],
      databases = (\<lambda>u. emptyDb)(''db1'' := db),
      console = [],
      env_DATABASE_URL = ''main''\<rparr>"

definition ex_collaborative_request :: recommendationRequest where
  "ex_collaborative_request =
     \<lparr>req_storeId = 1, req_customerId = Some 1, req_sessionId = ''s1'', req_limit = None,
      req_excludeProductIds = None, req_type = Some Collaborative\<rparr>"


section \<open>Auxiliary lemmas\<close>

subsection \<open>Joined parameters\<close>

lemma joined_simps:
  "joined [] = Inl (StorageError ''invalid input syntax for type integer'')"
  "joined [x] = Inr x"
  "joined (x # y # zs) = Inl (StorageError ''invalid input syntax for type integer'')"
  by (simp_all add: joined_def)

lemma joined_Inr: "joined ids = Inr x \<longleftrightarrow> ids = [x]"
  by (auto simp: joined_def split: list.splits)

lemma not_in_joined_simps:
  "not_in_joined [] = Inl (StorageError ''invalid input syntax for type integer'')"
  "not_in_joined [x] = Inr (\<lambda>p. sql_not_in p [Some x])"
  "not_in_joined (x # y # zs) = Inl (StorageError ''invalid input syntax for type integer'')"
  by (simp_all add: not_in_joined_def joined_simps)

lemma not_in_joined_Inr:
  "not_in_joined ids = Inr P \<longleftrightarrow> (\<exists>x. ids = [x] \<and> P = (\<lambda>p. sql_not_in p [Some x]))"
proof (cases ids)
  case Nil
  then show ?thesis by (simp add: not_in_joined_simps)
next
  case (Cons x xs)
  then show ?thesis by (cases xs) (auto simp: not_in_joined_simps)
qed

lemma exclusion_simps:
  "exclusion [] = Inr (\<lambda>p. True)"
  "exclusion [x] = Inr (\<lambda>p. sql_not_in p [Some x])"
  "exclusion (x # y # zs) = Inl (StorageError ''invalid input syntax for type integer'')"
  by (simp_all add: exclusion_def not_in_joined_simps)

lemma exclusion_Inr:
  "exclusion ids = Inr P \<Longrightarrow> length ids \<le> 1"
  by (cases ids) (auto simp: exclusion_def not_in_joined_Inr)

lemma not_excluded_simps:
  "not_excluded k [] = True"
  "not_excluded k [x] = sql_not_in k [Some x]"
  "not_excluded k (x # y # zs) = False"
  by (simp_all add: not_excluded_def selects_def exclusion_simps)

lemma not_viewed_simps:
  "not_viewed p [] = False"
  "not_viewed p [x] = (p \<noteq> x)"
  "not_viewed p (x # y # zs) = False"
  by (auto simp: not_viewed_def selects_def not_in_joined_simps sql_not_in_def)

lemma not_excluded_Inl: "exclusion excl = Inl e \<Longrightarrow> \<not> not_excluded k excl"
  by (simp add: not_excluded_def selects_def)

lemma not_viewed_Inl: "not_in_joined viewed = Inl e \<Longrightarrow> \<not> not_viewed p viewed"
  by (simp add: not_viewed_def selects_def)

lemma not_viewed_single:
  assumes "not_viewed p viewed"
  shows "\<exists>v. viewed = [v] \<and> p \<noteq> v"
proof (cases viewed)
  case Nil
  with assms show ?thesis by (simp add: not_viewed_simps)
next
  case (Cons x xs)
  with assms show ?thesis by (cases xs) (simp_all add: not_viewed_simps)
qed

lemma not_viewed_imp: "not_viewed p viewed \<Longrightarrow> p \<notin> set viewed"
  by (auto dest: not_viewed_single)

lemma not_excluded_Some:
  "not_excluded (Some p) excl \<Longrightarrow> p \<notin> set excl"
proof (cases excl)
  case Nil
  then show ?thesis by simp
next
  case (Cons x xs)
  assume "not_excluded (Some p) excl"
  with Cons show ?thesis by (cases xs) (auto simp: not_excluded_simps sql_not_in_def)
qed

lemma not_excluded_imp: "not_excluded k excl \<Longrightarrow> k = Some p \<Longrightarrow> p \<notin> set excl"
  by (simp add: not_excluded_Some)

lemma not_excluded_length: "not_excluded k excl \<Longrightarrow> length excl \<le> 1"
  by (cases "exclusion excl") (auto simp: not_excluded_Inl dest: exclusion_Inr)

text \<open>
  When the parameter is rejected the selected rows are empty, so each query is the image
  of its selected rows.
\<close>

lemma recentlyViewedQuery_rows:
  "recentlyViewedQuery db now request =
     map (\<lambda>(index, item).
            \<lparr>productId = fst item,
             score = max (0.9 - (real index * 0.1)) 0.1,
             type = ''recently_viewed'',
             reasons = [''You viewed this recently'']\<rparr>)
         (enumerate 0 (recentlyViewedRows db now request))"
proof (cases "exclusion (dflt [] (req_excludeProductIds request))")
  case (Inl e)
  then have "recentViews db now request = []"
    by (simp add: recentViews_def not_excluded_Inl)
  then have "recentlyViewedRows db now request = []"
    by (simp add: recentlyViewedRows_def group_by_def order_by_desc_def)
  with Inl show ?thesis by (simp add: recentlyViewedQuery_def)
next
  case (Inr P)
  then show ?thesis by (simp add: recentlyViewedQuery_def)
qed

lemma recommendedProducts_Inl:
  assumes "exclusion (dflt [] (req_excludeProductIds request)) = Inl e"
  shows "recommendedProducts db request ids = []"
  using assms
  by (simp add: recommendedProducts_def Let_def not_excluded_Inl group_by_def order_by_desc_def)

lemma collaborativeQuery_rows:
  "collaborativeQuery db request =
     (let customerId = req_customerId request in
      if \<not> truthy customerId then []
      else
        let similar = similarCustomers db customerId in
        if similar = [] then []
        else
          let similarCustomerIds = filter (\<lambda>id. id \<noteq> customerId) (map fst similar) in
          map (\<lambda>item.
                 \<lparr>productId = fst item,
                  score = min (real (snd item) / 10) 1,
                  type = ''collaborative'',
                  reasons = [''Customers like you also purchased this'']\<rparr>)
              (concat (map withProductId (recommendedProducts db request similarCustomerIds))))"
proof (cases "exclusion (dflt [] (req_excludeProductIds request))")
  case (Inl e)
  then show ?thesis by (simp add: collaborativeQuery_def Let_def recommendedProducts_Inl)
next
  case (Inr P)
  then show ?thesis by (simp add: collaborativeQuery_def Let_def)
qed

lemma similarProducts_empty:
  assumes "similarMappings db request viewed cats = []"
  shows "similarProducts db request viewed cats = []"
  using assms by (simp add: similarProducts_def group_by_def order_by_desc_def)

lemma similarProducts_viewed_Inl:
  assumes "not_in_joined viewed = Inl e"
  shows "similarProducts db request viewed cats = []"
  using assms by (intro similarProducts_empty) (simp add: similarMappings_def not_viewed_Inl)

lemma similarProducts_Inl:
  assumes "exclusion (dflt [] (req_excludeProductIds request)) = Inl e"
  shows "similarProducts db request viewed cats = []"
  using assms by (intro similarProducts_empty) (simp add: similarMappings_def not_excluded_Inl)

lemma contentBasedQuery_rows:
  "contentBasedQuery db request =
     (let viewedProductIds = viewedProducts db request in
      if viewedProductIds = [] then []
      else
        let productCategories = viewedCategories db viewedProductIds in
        if productCategories = [] then []
        else
          let topCategoryIds = map fst (take 3 productCategories) in
          map (\<lambda>item.
                 \<lparr>productId = fst item,
                  score = min (real (snd item) / real (length topCategoryIds)) 1,
                  type = ''content_based'',
                  reasons = [''Similar to products you viewed'']\<rparr>)
              (similarProducts db request viewedProductIds topCategoryIds))"
proof (cases "not_in_joined (viewedProducts db request)")
  case (Inl e)
  then show ?thesis by (simp add: contentBasedQuery_def Let_def similarProducts_viewed_Inl)
next
  case viewed: (Inr V)
  show ?thesis
  proof (cases "exclusion (dflt [] (req_excludeProductIds request))")
    case (Inl e)
    with viewed show ?thesis by (simp add: contentBasedQuery_def Let_def similarProducts_Inl)
  next
    case (Inr P)
    with viewed show ?thesis by (simp add: contentBasedQuery_def Let_def)
  qed
qed

lemma trendingQuery_rows:
  "trendingQuery db now request =
     (let rows = trendingProducts db now request in
      map (\<lambda>item.
             \<lparr>productId = fst item,
              score = real (snd item) / real (maxScore rows),
              type = ''trending'',
              reasons = [''Trending this week'']\<rparr>)
          (concat (map withProductId rows)))"
proof (cases "exclusion (dflt [] (req_excludeProductIds request))")
  case (Inl e)
  then have "trendingEvents db now request = []"
    by (simp add: trendingEvents_def not_excluded_Inl)
  then have "trendingProducts db now request = []"
    by (simp add: trendingProducts_def group_by_def order_by_desc_def)
  with Inl show ?thesis by (simp add: trendingQuery_def)
next
  case (Inr P)
  then show ?thesis by (simp add: trendingQuery_def)
qed

subsection \<open>Grouping and ordering\<close>

lemma group_by_keys: "map fst (group_by key rows) = remdups (map key rows)"
  by (simp add: group_by_def comp_def)

lemma distinct_group_by: "distinct (map fst (group_by key rows))"
  by (simp add: group_by_keys)

lemma group_by_member:
  "(k, g) \<in> set (group_by key rows) \<longleftrightarrow> k \<in> key ` set rows \<and> g = filter (\<lambda>r. key r = k) rows"
  by (auto simp: group_by_def)

lemma group_by_nonempty: "(k, g) \<in> set (group_by key rows) \<Longrightarrow> g \<noteq> []"
  by (auto simp: group_by_member filter_empty_conv)

lemma set_order_by_desc [simp]: "set (order_by_desc f xs) = set xs"
  by (simp add: order_by_desc_def)

lemma length_order_by_desc [simp]: "length (order_by_desc f xs) = length xs"
  by (simp add: order_by_desc_def)

lemma distinct_map_order_by_desc:
  "distinct (map g (order_by_desc f xs)) = distinct (map g xs)"
  by (simp add: distinct_map order_by_desc_def)

lemma sorted_order_by_desc: "sorted (map (\<lambda>r. - f r) (order_by_desc f xs))"
  by (simp add: order_by_desc_def)

lemma order_by_desc_nth_mono:
  assumes "i \<le> j" "j < length xs"
  shows "f (order_by_desc f xs ! j) \<le> f (order_by_desc f xs ! i)"
proof -
  let ?ys = "map (\<lambda>r. - f r) (order_by_desc f xs)"
  have "sorted ?ys" by (rule sorted_order_by_desc)
  moreover have "j < length ?ys" using assms by simp
  ultimately have "?ys ! i \<le> ?ys ! j" using assms(1) sorted_nth_mono by blast
  then show ?thesis using assms by simp
qed

lemma order_by_desc_hd_max:
  assumes "x \<in> set xs"
  shows "f x \<le> f (hd (order_by_desc f xs))"
proof -
  let ?ys = "order_by_desc f xs"
  from assms have "x \<in> set ?ys" by simp
  then obtain j where j: "j < length ?ys" "?ys ! j = x" by (metis in_set_conv_nth)
  then have "f (?ys ! j) \<le> f (?ys ! 0)"
    using order_by_desc_nth_mono [of 0 j xs f] by simp
  moreover have "?ys ! 0 = hd ?ys" using j by (cases ?ys) auto
  ultimately show ?thesis using j by simp
qed

lemma map_if_unchanged: "(\<forall>x\<in>set xs. \<not> P x) \<Longrightarrow> map (\<lambda>x. if P x then f x else x) xs = xs"
  by (induction xs) auto

lemma recentlyViewedRows_member:
  assumes "(p, t) \<in> set (recentlyViewedRows db now request)"
  shows "t = lastViewed (recentViews db now request) p
       \<and> (\<exists>v\<in>set (recentViews db now request). pv_productId v = p \<and> pv_timestamp v = t)"
proof -
  let ?rows = "recentViews db now request"
  from assms have "(p, t) \<in> set (map (\<lambda>(p, g). (p, Max (set (map pv_timestamp g)))) (group_by pv_productId ?rows))"
    by (auto simp: recentlyViewedRows_def Let_def dest: in_set_takeD)
  then obtain g where g: "(p, g) \<in> set (group_by pv_productId ?rows)" and t: "t = Max (set (map pv_timestamp g))"
    by auto
  from g have geq: "g = filter (\<lambda>r. pv_productId r = p) ?rows"
    by (simp add: group_by_member)
  from g have ne: "g \<noteq> []" by (rule group_by_nonempty)
  from ne have "Max (set (map pv_timestamp g)) \<in> set (map pv_timestamp g)"
    by (intro Max_in) auto
  with t obtain v where "v \<in> set g" "pv_timestamp v = t" by auto
  with geq t show ?thesis by (auto simp: lastViewed_def)
qed

lemma recentlyViewedRows_sorted:
  assumes "i \<le> j" "j < length (recentlyViewedRows db now request)"
  shows "snd (recentlyViewedRows db now request ! j) \<le> snd (recentlyViewedRows db now request ! i)"
proof -
  let ?M = "map (\<lambda>(p, g). (p, Max (set (map pv_timestamp g))))
              (group_by pv_productId (recentViews db now request))"
  from assms have "j < length ?M" by (simp add: recentlyViewedRows_def Let_def)
  with assms(1) have "snd (order_by_desc snd ?M ! j) \<le> snd (order_by_desc snd ?M ! i)"
    by (rule order_by_desc_nth_mono)
  with assms show ?thesis by (simp add: recentlyViewedRows_def Let_def)
qed

lemma recentlyViewedQuery_length:
  "length (recentlyViewedQuery db now request) = length (recentlyViewedRows db now request)"
  by (simp add: recentlyViewedQuery_rows)

lemma recentlyViewedQuery_nth:
  assumes "i < length (recentlyViewedRows db now request)"
  shows "recentlyViewedQuery db now request ! i =
     \<lparr>productId = fst (recentlyViewedRows db now request ! i),
      score = max (0.9 - (real i * 0.1)) 0.1,
      type = ''recently_viewed'',
      reasons = [''You viewed this recently'']\<rparr>"
  using assms by (simp add: recentlyViewedQuery_rows nth_enumerate_eq)

lemma set_foldl_set_add: "set (foldl set_add acc xs) = set acc \<union> set xs"
  by (induction xs arbitrary: acc) (auto simp: set_add_def)

lemma distinct_foldl_set_add: "distinct acc \<Longrightarrow> distinct (foldl set_add acc xs)"
  by (induction xs arbitrary: acc) (auto simp: set_add_def)

lemma foldl_set_add_distinct:
  "distinct zs \<Longrightarrow> set acc \<inter> set zs = {} \<Longrightarrow> foldl set_add acc zs = acc @ zs"
  by (induction zs arbitrary: acc) (auto simp: set_add_def)

lemma set_new_Set [simp]: "set (new_Set xs) = set xs"
  by (simp add: new_Set_def set_foldl_set_add)

lemma distinct_new_Set [simp]: "distinct (new_Set xs)"
  by (simp add: new_Set_def distinct_foldl_set_add)

lemma new_Set_distinct: "distinct xs \<Longrightarrow> new_Set xs = xs"
  using foldl_set_add_distinct [of xs "[]"] by (simp add: new_Set_def)

lemma new_Set_snoc: "new_Set (xs @ [x]) = set_add (new_Set xs) x"
  by (simp add: new_Set_def)

lemma new_Set_append: "new_Set (xs @ ys) = foldl set_add (new_Set xs) ys"
  by (simp add: new_Set_def)

lemma new_Set_idem_append: "new_Set (new_Set xs @ ys) = new_Set (xs @ ys)"
  by (simp add: new_Set_append new_Set_distinct)

lemma mergedReasons_snoc:
  "rss \<noteq> [] \<Longrightarrow> new_Set (mergedReasons rss @ rs) = mergedReasons (rss @ [rs])"
proof (cases rss)
  case Nil
  assume "rss \<noteq> []" with Nil show ?thesis by simp
next
  case (Cons a list)
  show ?thesis
  proof (cases list)
    case Nil
    with Cons show ?thesis by (simp add: mergedReasons_def)
  next
    case (Cons b list')
    with \<open>rss = a # list\<close> show ?thesis
      by (simp add: mergedReasons_def new_Set_idem_append)
  qed
qed

lemma occurrences_snoc:
  "occurrences (xs @ [x]) p = (if productId x = p then occurrences xs p @ [x] else occurrences xs p)"
  by (simp add: occurrences_def)

lemma merge_rec_None:
  "map_of m (productId x) = None \<Longrightarrow> merge_rec m x = m @ [(productId x, x\<lparr>type := ''hybrid''\<rparr>)]"
  by (simp add: merge_rec_def)

lemma merge_rec_Some:
  "map_of m (productId x) = Some e \<Longrightarrow>
     merge_rec m x = AList.update (productId x)
       (e\<lparr>score := score e + score x, reasons := new_Set (reasons e @ reasons x), type := ''hybrid''\<rparr>) m"
  by (simp add: merge_rec_def)

lemma merge_keys: "map fst (foldl merge_rec [] xs) = new_Set (map productId xs)"
proof (induction xs rule: rev_induct)
  case Nil
  show ?case by (simp add: new_Set_def)
next
  case (snoc x xs)
  let ?m = "foldl merge_rec [] xs"
  show ?case
  proof (cases "map_of ?m (productId x)")
    case None
    then have "productId x \<notin> set (map fst ?m)" by (simp add: map_of_eq_None_iff)
    with snoc show ?thesis
      by (simp add: merge_rec_None [OF None] new_Set_snoc set_add_def)
  next
    case (Some e)
    then have "productId x \<in> set (map fst ?m)" by (metis map_of_eq_None_iff option.distinct(1) set_map)
    with snoc show ?thesis
      by (simp add: merge_rec_Some [OF Some] new_Set_snoc set_add_def update_keys)
  qed
qed

lemma merge_lookup:
  "map_of (foldl merge_rec [] xs) p =
     (if occurrences xs p = [] then None else Some (mergedEntry xs p))"
proof (induction xs arbitrary: p rule: rev_induct)
  case Nil
  show ?case by (simp add: occurrences_def)
next
  case (snoc x xs)
  let ?m = "foldl merge_rec [] xs"
  show ?case
  proof (cases "map_of ?m (productId x)")
    case None
    then have no: "occurrences xs (productId x) = []" using snoc [of "productId x"] by (simp split: if_splits)
    have "map_of (merge_rec ?m x) p = (if p = productId x then Some (x\<lparr>type := ''hybrid''\<rparr>) else map_of ?m p)"
      using None by (auto simp: merge_rec_None [OF None] map_add_def split: option.splits)
    moreover have "x\<lparr>type := ''hybrid''\<rparr> = mergedEntry (xs @ [x]) (productId x)"
      using no by (simp add: mergedEntry_def occurrences_snoc mergedReasons_def)
    ultimately show ?thesis using snoc [of p]
      by (auto simp: occurrences_snoc mergedEntry_def)
  next
    case (Some e)
    then have e: "e = mergedEntry xs (productId x)" and ne: "occurrences xs (productId x) \<noteq> []"
      using snoc [of "productId x"] by (auto split: if_splits)
    let ?e' = "e\<lparr>score := score e + score x, reasons := new_Set (reasons e @ reasons x), type := ''hybrid''\<rparr>"
    have "map_of (merge_rec ?m x) p = (if p = productId x then Some ?e' else map_of ?m p)"
      by (simp add: merge_rec_Some [OF Some] update_conv')
    moreover have "?e' = mergedEntry (xs @ [x]) (productId x)"
      using ne by (simp add: e mergedEntry_def occurrences_snoc mergedReasons_snoc)
    ultimately show ?thesis using snoc [of p]
      by (auto simp: occurrences_snoc mergedEntry_def)
  qed
qed

lemma alist_by_keys:
  "distinct (map fst m) \<Longrightarrow> m = map (\<lambda>k. (k, the (map_of m k))) (map fst m)"
proof (induction m)
  case Nil
  show ?case by simp
next
  case (Cons a m)
  obtain k v where a: "a = (k, v)" by (cases a)
  from Cons.prems a have k: "k \<notin> fst ` set m" and d: "distinct (map fst m)" by auto
  have "map (\<lambda>k'. (k', the (map_of (a # m) k'))) (map fst m)
      = map (\<lambda>k'. (k', the (map_of m k'))) (map fst m)"
  proof (intro map_cong refl)
    fix k' assume "k' \<in> set (map fst m)"
    with k have "k' \<noteq> k" by auto
    then show "(k', the (map_of (a # m) k')) = (k', the (map_of m k'))" by (simp add: a)
  qed
  with Cons.IH [OF d] show ?case by (simp add: a)
qed

lemma mergeRecommendations_eq:
  "mergeRecommendations xs = map (mergedEntry xs) (new_Set (map productId xs))"
proof -
  let ?m = "foldl merge_rec [] xs"
  have d: "distinct (map fst ?m)" by (simp add: merge_keys)
  have "map snd ?m = map (\<lambda>k. the (map_of ?m k)) (map fst ?m)"
    using alist_by_keys [OF d] by (metis (no_types, lifting) map_map comp_def snd_conv map_eq_conv)
  also have "\<dots> = map (mergedEntry xs) (map fst ?m)"
  proof (intro map_cong refl)
    fix k assume "k \<in> set (map fst ?m)"
    then have "k \<in> productId ` set xs" by (simp add: merge_keys)
    then have "occurrences xs k \<noteq> []" by (auto simp: occurrences_def filter_empty_conv)
    then show "the (map_of ?m k) = mergedEntry xs k" by (simp add: merge_lookup)
  qed
  finally show ?thesis by (simp add: mergeRecommendations_def merge_keys)
qed

lemma map_fst_map_snd [simp]: "map fst (map (\<lambda>(k, g). (k, h g)) xs) = map fst xs"
  by (induction xs) auto

lemma map_fst_comp_snd [simp]: "map (fst \<circ> (\<lambda>(k, g). (k, h g))) xs = map fst xs"
  by (induction xs) auto

lemma distinct_map_take: "distinct (map f xs) \<Longrightarrow> distinct (map f (take n xs))"
  by (metis distinct_take take_map)

lemma grouped_distinct:
  "distinct (map fst (take n (order_by_desc f (map (\<lambda>(k, g). (k, h g)) (group_by key rows)))))"
  by (intro distinct_map_take) (simp add: distinct_map_order_by_desc distinct_group_by)

lemma grouped_having_distinct:
  "distinct (map fst (take n (order_by_desc f
       (map (\<lambda>(k, g). (k, h g)) (filter P (group_by key rows))))))"
  by (intro distinct_map_take)
     (simp add: distinct_map_order_by_desc distinct_map_filter distinct_group_by)

lemma grouped_member:
  assumes "(k, v) \<in> set (take n (order_by_desc f (map (\<lambda>(k, g). (k, h g)) (group_by key rows))))"
  shows "v = h (filter (\<lambda>r. key r = k) rows) \<and> (\<exists>r\<in>set rows. key r = k)"
proof -
  from assms have "(k, v) \<in> set (map (\<lambda>(k, g). (k, h g)) (group_by key rows))"
    by (auto dest: in_set_takeD)
  then obtain g where "(k, g) \<in> set (group_by key rows)" "v = h g" by auto
  then show ?thesis by (auto simp: group_by_member)
qed

lemma grouped_having_member:
  assumes "(k, v) \<in> set (take n (order_by_desc f
       (map (\<lambda>(k, g). (k, h g)) (filter P (group_by key rows)))))"
  shows "v = h (filter (\<lambda>r. key r = k) rows) \<and> (\<exists>r\<in>set rows. key r = k)
       \<and> P (k, filter (\<lambda>r. key r = k) rows)"
proof -
  from assms have "(k, v) \<in> set (map (\<lambda>(k, g). (k, h g)) (filter P (group_by key rows)))"
    by (auto dest: in_set_takeD)
  then obtain g where "(k, g) \<in> set (group_by key rows)" "P (k, g)" "v = h g" by auto
  then show ?thesis by (auto simp: group_by_member)
qed

lemma withProductId_set: "(p, x) \<in> set (withProductId a) \<longleftrightarrow> a = (Some p, x) \<and> p \<noteq> 0"
proof (cases a)
  case (Pair k v)
  then show ?thesis by (cases k) auto
qed

lemma withProductId_member:
  "(p, x) \<in> set (concat (map withProductId xs)) \<longleftrightarrow> (Some p, x) \<in> set xs \<and> p \<noteq> 0"
  by (auto simp: withProductId_set)

lemma withProductId_distinct:
  "distinct (map fst xs) \<Longrightarrow> distinct (map fst (concat (map withProductId xs)))"
proof (induction xs)
  case Nil
  show ?case by simp
next
  case (Cons a xs)
  obtain k v where a: "a = (k, v)" by (cases a)
  from Cons have IH: "distinct (map fst (concat (map withProductId xs)))" by simp
  show ?case
  proof (cases k)
    case None
    with IH a show ?thesis by simp
  next
    case (Some p)
    have "p \<notin> fst ` set (concat (map withProductId xs))"
    proof
      assume "p \<in> fst ` set (concat (map withProductId xs))"
      then obtain x where "(p, x) \<in> set (concat (map withProductId xs))" by force
      then have "(Some p, x) \<in> set xs" by (simp only: withProductId_member)
      then have "Some p \<in> fst ` set xs" by force
      with Cons.prems a Some show False by simp
    qed
    with IH a Some show ?thesis by simp
  qed
qed

lemma recommendedProducts_distinct:
  "distinct (map fst (recommendedProducts db request ids))"
  unfolding recommendedProducts_def Let_def by (rule grouped_distinct)

lemma recommendedProducts_not_excluded:
  assumes "(k, n) \<in> set (recommendedProducts db request ids)"
  shows "not_excluded k (dflt [] (req_excludeProductIds request))"
  using grouped_member [OF assms [unfolded recommendedProducts_def Let_def]] by auto

lemma collaborativeQuery_distinct: "distinct (map productId (collaborativeQuery db request))"
proof -
  have "\<And>ids. distinct (map fst (concat (map withProductId (recommendedProducts db request ids))))"
    by (intro withProductId_distinct recommendedProducts_distinct)
  then show ?thesis by (simp add: collaborativeQuery_rows Let_def comp_def)
qed

lemma collaborativeQuery_member:
  assumes "r \<in> set (collaborativeQuery db request)"
  shows "score r \<le> 1 \<and> 0 \<le> score r \<and> type r = ''collaborative''
       \<and> reasons r = [''Customers like you also purchased this'']
       \<and> not_excluded (Some (productId r)) (dflt [] (req_excludeProductIds request))"
proof -
  let ?ids = "filter (\<lambda>id. id \<noteq> req_customerId request)
                (map fst (similarCustomers db (req_customerId request)))"
  let ?f = "\<lambda>item. \<lparr>productId = fst item, score = min (real (snd item) / 10) 1,
                 type = ''collaborative'',
                 reasons = [''Customers like you also purchased this'']\<rparr>"
  from assms have "r \<in> set (map ?f (concat (map withProductId (recommendedProducts db request ?ids))))"
    by (simp add: collaborativeQuery_rows Let_def split: if_splits)
  then obtain item where item: "item \<in> set (concat (map withProductId (recommendedProducts db request ?ids)))"
    and r: "r = ?f item" by auto
  from item have "(fst item, snd item) \<in> set (concat (map withProductId (recommendedProducts db request ?ids)))"
    by simp
  then have "(Some (fst item), snd item) \<in> set (recommendedProducts db request ?ids)"
    by (simp only: withProductId_member)
  then have "not_excluded (Some (fst item)) (dflt [] (req_excludeProductIds request))"
    by (rule recommendedProducts_not_excluded)
  with r show ?thesis by simp
qed

lemma similarProducts_distinct:
  "distinct (map fst (similarProducts db request viewed cats))"
  unfolding similarProducts_def by (rule grouped_distinct)

lemma similarProducts_member:
  assumes "(p, n) \<in> set (similarProducts db request viewed cats)"
  shows "n = length (filter (\<lambda>m. pcm_productId m = p) (similarMappings db request viewed cats))
       \<and> (\<exists>m\<in>set (similarMappings db request viewed cats). pcm_productId m = p)"
  using grouped_member [OF assms [unfolded similarProducts_def]] by simp

lemma contentBasedQuery_distinct: "distinct (map productId (contentBasedQuery db request))"
  by (simp add: contentBasedQuery_rows Let_def comp_def similarProducts_distinct)

lemma contentBasedQuery_member:
  assumes "r \<in> set (contentBasedQuery db request)"
  shows "score r \<le> 1 \<and> 0 \<le> score r \<and> type r = ''content_based''
       \<and> reasons r = [''Similar to products you viewed'']
       \<and> topCategories db request \<noteq> []
       \<and> score r = min (real (length (filter (\<lambda>m. pcm_productId m = productId r)
                                  (similarMappings db request (viewedProducts db request)
                                     (topCategories db request))))
                       / real (length (topCategories db request))) 1
       \<and> productId r \<notin> set (viewedProducts db request)
       \<and> not_excluded (Some (productId r)) (dflt [] (req_excludeProductIds request))"
proof -
  let ?viewed = "viewedProducts db request"
  let ?cats = "topCategories db request"
  let ?f = "\<lambda>item. \<lparr>productId = fst item,
                  score = min (real (snd item) / real (length ?cats)) 1,
                  type = ''content_based'',
                  reasons = [''Similar to products you viewed'']\<rparr>"
  from assms have ne: "viewedCategories db ?viewed \<noteq> []"
    and "r \<in> set (map ?f (similarProducts db request ?viewed ?cats))"
    by (auto simp: contentBasedQuery_rows topCategories_def Let_def split: if_splits)
  then obtain item where item: "item \<in> set (similarProducts db request ?viewed ?cats)"
    and r: "r = ?f item" by auto
  from item have "(fst item, snd item) \<in> set (similarProducts db request ?viewed ?cats)" by simp
  from similarProducts_member [OF this] obtain m where
    n: "snd item = length (filter (\<lambda>m. pcm_productId m = fst item) (similarMappings db request ?viewed ?cats))"
    and m: "m \<in> set (similarMappings db request ?viewed ?cats)" "pcm_productId m = fst item"
    by blast
  from m have "fst item \<notin> set ?viewed"
    and "not_excluded (Some (fst item)) (dflt [] (req_excludeProductIds request))"
    by (auto simp: similarMappings_def dest: not_viewed_imp)
  moreover from ne have "?cats \<noteq> []" by (cases "viewedCategories db ?viewed") (auto simp: topCategories_def)
  ultimately show ?thesis using r n by simp
qed

lemma trendingProducts_distinct: "distinct (map fst (trendingProducts db now request))"
  unfolding trendingProducts_def by (rule grouped_having_distinct)

lemma trendingProducts_member:
  assumes "(k, t) \<in> set (trendingProducts db now request)"
  shows "t = totalScore (filter (\<lambda>r. cb_productId r = k) (trendingEvents db now request))
       \<and> 2 < length (filter (\<lambda>r. cb_productId r = k) (trendingEvents db now request))
       \<and> not_excluded k (dflt [] (req_excludeProductIds request))"
proof -
  from grouped_having_member [OF assms [unfolded trendingProducts_def]]
  obtain r where "t = totalScore (filter (\<lambda>r. cb_productId r = k) (trendingEvents db now request))"
    and "2 < length (filter (\<lambda>r. cb_productId r = k) (trendingEvents db now request))"
    and "r \<in> set (trendingEvents db now request)" "cb_productId r = k"
    by auto
  then show ?thesis by (auto simp: trendingEvents_def)
qed

lemma trendingProducts_le_first:
  assumes "item \<in> set (trendingProducts db now request)"
  shows "snd item \<le> snd (hd (trendingProducts db now request))"
proof -
  let ?G = "map (\<lambda>(p, g). (p, totalScore g))
             (filter (\<lambda>(p, g). length g > 2) (group_by cb_productId (trendingEvents db now request)))"
  let ?n = "dflt 10 (req_limit request)"
  let ?f = "\<lambda>(p, t). int t"
  from assms have mem: "item \<in> set (take ?n (order_by_desc ?f ?G))"
    by (simp add: trendingProducts_def)
  then have "item \<in> set ?G" by (auto dest: in_set_takeD)
  then have "?f item \<le> ?f (hd (order_by_desc ?f ?G))" by (rule order_by_desc_hd_max)
  moreover from mem have "0 < ?n" by (cases ?n) auto
  then have "hd (take ?n (order_by_desc ?f ?G)) = hd (order_by_desc ?f ?G)" by (simp add: hd_take)
  ultimately show ?thesis by (simp add: trendingProducts_def case_prod_beta)
qed

lemma trendingQuery_distinct: "distinct (map productId (trendingQuery db now request))"
  by (simp add: trendingQuery_rows Let_def comp_def withProductId_distinct trendingProducts_distinct)

lemma trendingQuery_member:
  assumes "r \<in> set (trendingQuery db now request)"
  shows "score r \<le> 1 \<and> 0 \<le> score r \<and> type r = ''trending'' \<and> reasons r = [''Trending this week'']
       \<and> not_excluded (Some (productId r)) (dflt [] (req_excludeProductIds request))
       \<and> (Some (productId r),
            totalScore (filter (\<lambda>e. cb_productId e = Some (productId r)) (trendingEvents db now request)))
           \<in> set (trendingProducts db now request)
       \<and> score r = real (totalScore (filter (\<lambda>e. cb_productId e = Some (productId r))
                                        (trendingEvents db now request)))
                    / real (maxScore (trendingProducts db now request))
       \<and> 2 < length (filter (\<lambda>e. cb_productId e = Some (productId r)) (trendingEvents db now request))"
proof -
  let ?rows = "trendingProducts db now request"
  let ?f = "\<lambda>item. \<lparr>productId = fst item, score = real (snd item) / real (maxScore ?rows),
                 type = ''trending'', reasons = [''Trending this week'']\<rparr>"
  from assms obtain item where item: "item \<in> set (concat (map withProductId ?rows))"
    and r: "r = ?f item" by (auto simp: trendingQuery_rows Let_def)
  from item have "(fst item, snd item) \<in> set (concat (map withProductId ?rows))" by simp
  then have mem: "(Some (fst item), snd item) \<in> set ?rows" by (simp only: withProductId_member)
  from trendingProducts_member [OF mem]
  have t: "snd item = totalScore (filter (\<lambda>r. cb_productId r = Some (fst item)) (trendingEvents db now request))"
    and c: "2 < length (filter (\<lambda>r. cb_productId r = Some (fst item)) (trendingEvents db now request))"
    and x: "not_excluded (Some (fst item)) (dflt [] (req_excludeProductIds request))" by auto
  from trendingProducts_le_first [OF mem] have le: "snd item \<le> snd (hd ?rows)" by simp
  have "snd item \<le> maxScore ?rows"
  proof (cases ?rows)
    case Nil
    with mem show ?thesis by simp
  next
    case (Cons a list)
    with le show ?thesis by (auto simp: maxScore_def)
  qed
  moreover have "0 < maxScore ?rows" by (auto simp: maxScore_def split: list.splits)
  ultimately have "real (snd item) / real (maxScore ?rows) \<le> 1" by simp
  with r t c x mem show ?thesis by simp
qed

lemma recentlyViewedRows_distinct: "distinct (map fst (recentlyViewedRows db now request))"
  unfolding recentlyViewedRows_def Let_def by (rule grouped_distinct)

lemma recentlyViewedQuery_distinct: "distinct (map productId (recentlyViewedQuery db now request))"
proof -
  let ?L = "recentlyViewedRows db now request"
  have "map productId (recentlyViewedQuery db now request) = map fst ?L"
    by (intro nth_equalityI) (simp_all add: recentlyViewedQuery_length recentlyViewedQuery_nth)
  then show ?thesis by (simp add: recentlyViewedRows_distinct)
qed

lemma recentlyViewedQuery_member:
  assumes "r \<in> set (recentlyViewedQuery db now request)"
  shows "score r \<le> 0.9 \<and> 0 \<le> score r \<and> type r = ''recently_viewed''
       \<and> reasons r = [''You viewed this recently'']
       \<and> not_excluded (Some (productId r)) (dflt [] (req_excludeProductIds request))"
proof -
  let ?L = "recentlyViewedRows db now request"
  from assms obtain i where i: "i < length ?L" and r: "r = recentlyViewedQuery db now request ! i"
    by (metis in_set_conv_nth recentlyViewedQuery_length)
  then have r': "r = \<lparr>productId = fst (?L ! i), score = max (0.9 - (real i * 0.1)) 0.1,
                       type = ''recently_viewed'', reasons = [''You viewed this recently'']\<rparr>"
    by (simp add: recentlyViewedQuery_nth)
  from i have "(fst (?L ! i), snd (?L ! i)) \<in> set ?L" by simp
  from recentlyViewedRows_member [OF this] obtain v where
    "v \<in> set (recentViews db now request)" "pv_productId v = fst (?L ! i)" by blast
  then have "not_excluded (Some (fst (?L ! i))) (dflt [] (req_excludeProductIds request))"
    by (auto simp: recentViews_def)
  with r' show ?thesis by (simp add: max_def)
qed

lemma generateHybridRecommendations_eq:
  "generateHybridRecommendations s now request =
     (case getStoreDatabase s (req_storeId request) of
        Inl e \<Rightarrow> []
      | Inr h \<Rightarrow>
          combine (dflt 10 (req_limit request))
            (collaborativeQuery (databases s h)
               (request\<lparr>req_limit := Some (nat \<lceil>real (dflt 10 (req_limit request)) * 0.3\<rceil>)\<rparr>))
            (contentBasedQuery (databases s h)
               (request\<lparr>req_limit := Some (nat \<lceil>real (dflt 10 (req_limit request)) * 0.3\<rceil>)\<rparr>))
            (trendingQuery (databases s h) now
               (request\<lparr>req_limit := Some (nat \<lceil>real (dflt 10 (req_limit request)) * 0.2\<rceil>)\<rparr>))
            (recentlyViewedQuery (databases s h) now
               (request\<lparr>req_limit := Some (nat \<lceil>real (dflt 10 (req_limit request)) * 0.2\<rceil>)\<rparr>)))"
  by (simp add: generateHybridRecommendations_def generateCollaborativeRecommendations_def
      generateContentBasedRecommendations_def generateTrendingRecommendations_def
      generateRecentlyViewedRecommendations_def Let_def split: sum.splits)

lemma productId_mergedEntry [simp]: "productId (mergedEntry xs p) = p"
  by (simp add: mergedEntry_def)

lemma mergeRecommendations_productIds:
  "map productId (mergeRecommendations xs) = new_Set (map productId xs)"
  by (simp add: mergeRecommendations_eq comp_def)

lemma mergeRecommendations_member:
  "e \<in> set (mergeRecommendations xs) \<longleftrightarrow> productId e \<in> productId ` set xs \<and> e = mergedEntry xs (productId e)"
  by (auto simp: mergeRecommendations_eq)

lemma combine_subset:
  "set (combine limit c cb t rv) \<subseteq> set (mergeRecommendations (allRecommendations c cb t rv))"
  by (auto simp: combine_def dest: in_set_takeD)

lemma productId_weighted [simp]: "productId (weighted w r) = productId r"
  by (simp add: weighted_def)

lemma score_weighted [simp]: "score (weighted w r) = score r * w"
  by (simp add: weighted_def)

lemma reasons_weighted [simp]: "reasons (weighted w r) = reasons r"
  by (simp add: weighted_def)

lemma occurrences_weighted:
  "occurrences (map (weighted w) xs) p = map (weighted w) (occurrences xs p)"
  by (simp add: occurrences_def filter_map comp_def)

lemma occurrences_append [simp]:
  "occurrences (xs @ ys) p = occurrences xs p @ occurrences ys p"
  by (simp add: occurrences_def)

lemma occurrences_all:
  "occurrences (allRecommendations c cb t rv) p =
     map (weighted 0.4) (occurrences c p) @ map (weighted 0.3) (occurrences cb p)
       @ map (weighted 0.2) (occurrences t p) @ map (weighted 0.1) (occurrences rv p)"
  by (simp add: allRecommendations_def occurrences_weighted)

lemma allRecommendations_productIds:
  "productId ` set (allRecommendations c cb t rv)
     = productId ` set c \<union> productId ` set cb \<union> productId ` set t \<union> productId ` set rv"
  by (simp add: allRecommendations_def image_Un image_image Un_assoc)

lemma occurrences_at_most_one:
  "distinct (map productId xs) \<Longrightarrow> length (occurrences xs p) \<le> 1"
  by (induction xs) (auto simp: occurrences_def filter_empty_conv image_iff)

lemma contribution_le:
  assumes "distinct (map productId xs)" and "\<forall>r\<in>set xs. score r \<le> b" and "0 \<le> w" and "0 \<le> b"
  shows "sum_list (map score (map (weighted w) (occurrences xs p))) \<le> w * b"
proof (cases "occurrences xs p")
  case Nil
  with assms show ?thesis by simp
next
  case (Cons r rs)
  with occurrences_at_most_one [OF assms(1), of p] have rs: "rs = []" by simp
  from Cons have "r \<in> set (occurrences xs p)" by simp
  then have "r \<in> set xs" by (simp add: occurrences_def)
  with assms(2) have "score r \<le> b" by blast
  with assms(3) have "score r * w \<le> b * w" by (intro mult_right_mono)
  with Cons rs show ?thesis by (simp add: mult.commute)
qed

lemma collaborativeQuery_score_le: "\<forall>r\<in>set (collaborativeQuery db request). score r \<le> 1"
  using collaborativeQuery_member by blast

lemma contentBasedQuery_score_le: "\<forall>r\<in>set (contentBasedQuery db request). score r \<le> 1"
  using contentBasedQuery_member by blast

lemma trendingQuery_score_le: "\<forall>r\<in>set (trendingQuery db now request). score r \<le> 1"
  using trendingQuery_member by blast

lemma recentlyViewedQuery_score_le: "\<forall>r\<in>set (recentlyViewedQuery db now request). score r \<le> 0.9"
  using recentlyViewedQuery_member by blast

lemma hybrid_score_le:
  assumes "r \<in> set (generateHybridRecommendations s now request)"
  shows "score r \<le> 0.99"
proof -
  let ?lim = "dflt 10 (req_limit request)"
  from assms obtain h where h: "getStoreDatabase s (req_storeId request) = Inr h"
    by (cases "getStoreDatabase s (req_storeId request)") (auto simp: generateHybridRecommendations_eq)
  let ?db = "databases s h"
  let ?c = "collaborativeQuery ?db (request\<lparr>req_limit := Some (nat \<lceil>real ?lim * 0.3\<rceil>)\<rparr>)"
  let ?cb = "contentBasedQuery ?db (request\<lparr>req_limit := Some (nat \<lceil>real ?lim * 0.3\<rceil>)\<rparr>)"
  let ?t = "trendingQuery ?db now (request\<lparr>req_limit := Some (nat \<lceil>real ?lim * 0.2\<rceil>)\<rparr>)"
  let ?rv = "recentlyViewedQuery ?db now (request\<lparr>req_limit := Some (nat \<lceil>real ?lim * 0.2\<rceil>)\<rparr>)"
  from assms h have "r \<in> set (combine ?lim ?c ?cb ?t ?rv)"
    by (simp add: generateHybridRecommendations_eq)
  with combine_subset have "r \<in> set (mergeRecommendations (allRecommendations ?c ?cb ?t ?rv))" by blast
  then have "r = mergedEntry (allRecommendations ?c ?cb ?t ?rv) (productId r)"
    by (simp add: mergeRecommendations_member)
  then have sc: "score r = sum_list (map score (occurrences (allRecommendations ?c ?cb ?t ?rv) (productId r)))"
    by (metis mergedEntry_def recommendationResult.select_convs(2))
  have 1: "sum_list (map score (map (weighted 0.4) (occurrences ?c (productId r)))) \<le> 0.4 * 1"
    by (intro contribution_le collaborativeQuery_distinct collaborativeQuery_score_le) simp_all
  have 2: "sum_list (map score (map (weighted 0.3) (occurrences ?cb (productId r)))) \<le> 0.3 * 1"
    by (intro contribution_le contentBasedQuery_distinct contentBasedQuery_score_le) simp_all
  have 3: "sum_list (map score (map (weighted 0.2) (occurrences ?t (productId r)))) \<le> 0.2 * 1"
    by (intro contribution_le trendingQuery_distinct trendingQuery_score_le) simp_all
  have 4: "sum_list (map score (map (weighted 0.1) (occurrences ?rv (productId r)))) \<le> 0.1 * 0.9"
    by (intro contribution_le recentlyViewedQuery_distinct recentlyViewedQuery_score_le) simp_all
  from 1 2 3 4 show ?thesis by (simp add: sc occurrences_all)
qed

text \<open>The example shop, strategy by strategy.\<close>

lemmas ex_shop_defs = ex_shop_def ex_shop_db_def ex_shop_request_def ex_event_def emptyDb_def
lemmas eval_defs = getStoreDatabase_def getStore_def getStoreDbByUrl_def truthy_def dflt_def
  sql_in_def sql_not_in_def not_excluded_simps not_viewed_simps group_by_def order_by_desc_def
  interval_days_def viewed_by_def

lemma ex_shop_db_of: "getStoreDatabase ex_shop 1 = Inr ''db1''" "databases ex_shop ''db1'' = ex_shop_db"
  by (simp_all add: ex_shop_def eval_defs)

lemma ex_purchased:
  "purchasedBy (customerBehavior ex_shop_db) (Some 1) = [Some 10, Some 11]"
  by (simp add: purchasedBy_def ex_shop_db_def ex_event_def)

lemma ex_similar:
  "similarCustomers ex_shop_db (Some 1) = [(Some 1, 2), (Some 2, 2)]"
  unfolding similarCustomers_def Let_def ex_purchased
  by (simp add: ex_shop_db_def ex_event_def sql_in_def group_by_def order_by_desc_def)

lemma ex_recommended:
  "recommendedProducts ex_shop_db ((ex_shop_request None)\<lparr>req_limit := Some 3\<rparr>) [Some 2]
     = [(Some 12, 1)]"
proof -
  have c: "req_customerId ((ex_shop_request None)\<lparr>req_limit := Some 3\<rparr>) = Some 1"
    and e: "dflt [] (req_excludeProductIds ((ex_shop_request None)\<lparr>req_limit := Some 3\<rparr>)) = []"
    and l: "dflt 10 (req_limit ((ex_shop_request None)\<lparr>req_limit := Some 3\<rparr>)) = 3"
    by (simp_all add: ex_shop_request_def dflt_def)
  show ?thesis
    unfolding recommendedProducts_def Let_def c e l ex_purchased
    by (simp add: ex_shop_db_def ex_event_def sql_in_def sql_not_in_def not_excluded_simps
        group_by_def order_by_desc_def)
qed

lemma ex_collab:
  "collaborativeQuery ex_shop_db ((ex_shop_request None)\<lparr>req_limit := Some 3\<rparr>)
     = [\<lparr>productId = 12, score = 1 / 10, type = ''collaborative'',
         reasons = [''Customers like you also purchased this'']\<rparr>]"
proof -
  have c: "req_customerId ((ex_shop_request None)\<lparr>req_limit := Some 3\<rparr>) = Some 1"
    by (simp add: ex_shop_request_def)
  show ?thesis
    unfolding collaborativeQuery_rows Let_def c ex_similar
    by (simp add: truthy_def ex_recommended)
qed

lemma ex_content:
  "contentBasedQuery ex_shop_db ((ex_shop_request None)\<lparr>req_limit := Some 3\<rparr>)
     = [\<lparr>productId = 12, score = 1, type = ''content_based'',
         reasons = [''Similar to products you viewed'']\<rparr>]"
  by (simp add: contentBasedQuery_rows viewedProducts_def viewedCategories_def similarProducts_def
      similarMappings_def ex_shop_defs eval_defs Let_def)

lemma ex_trending:
  "trendingQuery ex_shop_db 1000000000 ((ex_shop_request None)\<lparr>req_limit := Some 2\<rparr>)
     = [\<lparr>productId = 12, score = 1, type = ''trending'', reasons = [''Trending this week'']\<rparr>]"
  by (simp add: trendingQuery_rows trendingProducts_def trendingEvents_def totalScore_def
      eventScore_def maxScore_def ex_shop_defs eval_defs Let_def)

lemma ex_recently:
  "recentlyViewedQuery ex_shop_db 1000000000 ((ex_shop_request None)\<lparr>req_limit := Some 2\<rparr>)
     = [\<lparr>productId = 10, score = 9 / 10, type = ''recently_viewed'',
         reasons = [''You viewed this recently'']\<rparr>]"
  by (simp add: recentlyViewedQuery_rows recentlyViewedRows_def recentViews_def
      ex_shop_defs eval_defs Let_def)

lemma ex_shop_request_sel:
  "req_storeId (ex_shop_request excl) = 1"
  "dflt 10 (req_limit (ex_shop_request excl)) = 10"
  by (simp_all add: ex_shop_request_def dflt_def)

lemma ex_combine:
  "combine 10
     [\<lparr>productId = 12, score = 1 / 10, type = ''collaborative'',
       reasons = [''Customers like you also purchased this'']\<rparr>]
     [\<lparr>productId = 12, score = 1, type = ''content_based'',
       reasons = [''Similar to products you viewed'']\<rparr>]
     [\<lparr>productId = 12, score = 1, type = ''trending'', reasons = [''Trending this week'']\<rparr>]
     [\<lparr>productId = 10, score = 9 / 10, type = ''recently_viewed'',
       reasons = [''You viewed this recently'']\<rparr>]
   = ex_hybrid"
  by (simp add: combine_def mergeRecommendations_def allRecommendations_def weighted_def
      merge_rec_def new_Set_def set_add_def order_by_desc_def ex_hybrid_def)

lemma ex_shop_hybrid:
  "generateHybridRecommendations ex_shop 1000000000 (ex_shop_request None) = ex_hybrid"
  by (simp add: generateHybridRecommendations_eq ex_shop_request_sel ex_shop_db_of ex_collab
      ex_content ex_trending ex_recently ex_combine)

lemma req_limit_update_excl [simp]:
  "req_excludeProductIds (request\<lparr>req_limit := l\<rparr>) = req_excludeProductIds request"
  by simp

lemma collaborativeQuery_not_excluded:
  "r \<in> set (collaborativeQuery db request) \<Longrightarrow> productId r \<notin> set (dflt [] (req_excludeProductIds request))"
  using collaborativeQuery_member [of r db request] by (auto dest: not_excluded_Some)

lemma contentBasedQuery_not_excluded:
  "r \<in> set (contentBasedQuery db request) \<Longrightarrow> productId r \<notin> set (dflt [] (req_excludeProductIds request))"
  using contentBasedQuery_member [of r db request] by (auto dest: not_excluded_Some)

lemma trendingQuery_not_excluded:
  "r \<in> set (trendingQuery db now request) \<Longrightarrow> productId r \<notin> set (dflt [] (req_excludeProductIds request))"
  using trendingQuery_member [of r db now request] by (auto dest: not_excluded_Some)

lemma recentlyViewedQuery_not_excluded:
  "r \<in> set (recentlyViewedQuery db now request) \<Longrightarrow> productId r \<notin> set (dflt [] (req_excludeProductIds request))"
  using recentlyViewedQuery_member [of r db now request] by (auto dest: not_excluded_Some)

lemma combine_productIds:
  assumes "r \<in> set (combine limit c cb t rv)"
  shows "productId r \<in> productId ` set c \<union> productId ` set cb \<union> productId ` set t \<union> productId ` set rv"
proof -
  from assms combine_subset have "r \<in> set (mergeRecommendations (allRecommendations c cb t rv))"
    by blast
  then have "productId r \<in> productId ` set (allRecommendations c cb t rv)"
    by (simp add: mergeRecommendations_member)
  then show ?thesis by (simp only: allRecommendations_productIds)
qed

lemma hybrid_not_excluded:
  assumes "r \<in> set (generateHybridRecommendations s now request)"
  shows "productId r \<notin> set (dflt [] (req_excludeProductIds request))"
proof -
  let ?lim = "dflt 10 (req_limit request)"
  from assms obtain h where h: "getStoreDatabase s (req_storeId request) = Inr h"
    by (cases "getStoreDatabase s (req_storeId request)") (auto simp: generateHybridRecommendations_eq)
  let ?db = "databases s h"
  let ?c = "collaborativeQuery ?db (request\<lparr>req_limit := Some (nat \<lceil>real ?lim * 0.3\<rceil>)\<rparr>)"
  let ?cb = "contentBasedQuery ?db (request\<lparr>req_limit := Some (nat \<lceil>real ?lim * 0.3\<rceil>)\<rparr>)"
  let ?t = "trendingQuery ?db now (request\<lparr>req_limit := Some (nat \<lceil>real ?lim * 0.2\<rceil>)\<rparr>)"
  let ?rv = "recentlyViewedQuery ?db now (request\<lparr>req_limit := Some (nat \<lceil>real ?lim * 0.2\<rceil>)\<rparr>)"
  from assms h have "r \<in> set (combine ?lim ?c ?cb ?t ?rv)"
    by (simp add: generateHybridRecommendations_eq)
  from combine_productIds [OF this]
  consider x where "x \<in> set ?c" "productId r = productId x"
    | x where "x \<in> set ?cb" "productId r = productId x"
    | x where "x \<in> set ?t" "productId r = productId x"
    | x where "x \<in> set ?rv" "productId r = productId x"
    by auto
  then show ?thesis
  proof cases
    case 1
    with collaborativeQuery_not_excluded [OF 1(1)] show ?thesis by simp
  next
    case 2
    with contentBasedQuery_not_excluded [OF 2(1)] show ?thesis by simp
  next
    case 3
    with trendingQuery_not_excluded [OF 3(1)] show ?thesis by simp
  next
    case 4
    with recentlyViewedQuery_not_excluded [OF 4(1)] show ?thesis by simp
  qed
qed

lemma sum_score_weighted:
  "sum_list (map score (map (weighted w) xs)) = sum_list (map score xs) * w"
  by (induction xs) (simp_all add: distrib_right)

lemma map_reasons_weighted: "map reasons (map (weighted w) xs) = map reasons xs"
  by simp

lemma mergedReasons_distinct:
  assumes "\<forall>rs\<in>set rss. distinct rs"
  shows "mergedReasons rss = new_Set (concat rss)"
proof (cases rss)
  case Nil
  then show ?thesis by (simp add: mergedReasons_def)
next
  case (Cons a list)
  show ?thesis
  proof (cases list)
    case Nil
    with Cons assms show ?thesis by (simp add: mergedReasons_def new_Set_distinct)
  next
    case (Cons b list')
    with \<open>rss = a # list\<close> show ?thesis by (simp add: mergedReasons_def)
  qed
qed

lemma occurrences_exactly_one:
  assumes "distinct (map productId xs)" and "p \<in> productId ` set xs"
  shows "length (occurrences xs p) = 1"
proof -
  from assms(2) have "occurrences xs p \<noteq> []"
    by (auto simp: occurrences_def filter_empty_conv)
  then have "0 < length (occurrences xs p)" by (simp del: length_greater_0_conv add: length_greater_0_conv [symmetric])
  with occurrences_at_most_one [OF assms(1), of p] show ?thesis by linarith
qed

lemma occurrences_subset: "set (occurrences xs p) \<subseteq> set xs"
  by (auto simp: occurrences_def)

lemma combine_sorted:
  assumes "i \<le> j" and "j < length (combine limit c cb t rv)"
  shows "score (combine limit c cb t rv ! j) \<le> score (combine limit c cb t rv ! i)"
proof -
  let ?m = "mergeRecommendations (allRecommendations c cb t rv)"
  from assms have j: "j < length ?m" "j < limit" by (simp_all add: combine_def)
  with assms(1) have "score (order_by_desc score ?m ! j) \<le> score (order_by_desc score ?m ! i)"
    by (intro order_by_desc_nth_mono)
  with assms j show ?thesis by (simp add: combine_def)
qed

lemma combine_distinct: "distinct (map productId (combine limit c cb t rv))"
  unfolding combine_def
  by (intro distinct_map_take)
     (simp add: distinct_map_order_by_desc mergeRecommendations_productIds)

lemma merged_entry_of_strategies:
  assumes e: "e \<in> set (mergeRecommendations (allRecommendations c cb t rv))"
    and single: "\<forall>r\<in>set c \<union> set cb \<union> set t \<union> set rv. distinct (reasons r)"
  shows "type e = ''hybrid'' \<and>
     score e = sum_list (map score (occurrences c (productId e))) * 0.4
             + sum_list (map score (occurrences cb (productId e))) * 0.3
             + sum_list (map score (occurrences t (productId e))) * 0.2
             + sum_list (map score (occurrences rv (productId e))) * 0.1 \<and>
     reasons e = new_Set (concat (map reasons
                   (occurrences c (productId e) @ occurrences cb (productId e)
                      @ occurrences t (productId e) @ occurrences rv (productId e))))"
proof -
  let ?all = "allRecommendations c cb t rv"
  let ?p = "productId e"
  from e have eq: "e = mergedEntry ?all ?p" by (simp add: mergeRecommendations_member)
  have ty: "type (mergedEntry ?all ?p) = ''hybrid''" by (simp add: mergedEntry_def)
  have sc: "score (mergedEntry ?all ?p) = sum_list (map score (occurrences c ?p)) * 0.4
             + sum_list (map score (occurrences cb ?p)) * 0.3
             + sum_list (map score (occurrences t ?p)) * 0.2
             + sum_list (map score (occurrences rv ?p)) * 0.1"
    by (simp add: mergedEntry_def occurrences_all sum_score_weighted del: map_map)
  have rs: "map reasons (occurrences ?all ?p)
      = map reasons (occurrences c ?p @ occurrences cb ?p @ occurrences t ?p @ occurrences rv ?p)"
    by (simp add: occurrences_all)
  have "\<forall>x\<in>set (map reasons (occurrences c ?p @ occurrences cb ?p @ occurrences t ?p @ occurrences rv ?p)). distinct x"
    using single occurrences_subset by fastforce
  then have "mergedReasons (map reasons (occurrences ?all ?p))
      = new_Set (concat (map reasons (occurrences c ?p @ occurrences cb ?p @ occurrences t ?p @ occurrences rv ?p)))"
    unfolding rs by (rule mergedReasons_distinct)
  then have re: "reasons (mergedEntry ?all ?p)
      = new_Set (concat (map reasons (occurrences c ?p @ occurrences cb ?p @ occurrences t ?p @ occurrences rv ?p)))"
    by (simp add: mergedEntry_def)
  from ty sc re show ?thesis by (metis eq)
qed


lemma strategy_reasons_distinct:
  "r \<in> set (collaborativeQuery db request) \<Longrightarrow> distinct (reasons r)"
  "r \<in> set (contentBasedQuery db request) \<Longrightarrow> distinct (reasons r)"
  "r \<in> set (trendingQuery db now request) \<Longrightarrow> distinct (reasons r)"
  "r \<in> set (recentlyViewedQuery db now request) \<Longrightarrow> distinct (reasons r)"
  using collaborativeQuery_member [of r db request] contentBasedQuery_member [of r db request]
    trendingQuery_member [of r db now request] recentlyViewedQuery_member [of r db now request]
  by simp_all




lemma trackBehavior_appends:
  assumes "getStoreDatabase s (tb_storeId d) = Inr h"
    and "references (tb_customerId d) (customers (databases s h))"
    and "references (tb_productId d) (products (databases s h))"
  shows "trackBehavior s now d =
     Inr (with_events s h
            [\<lparr>cb_customerId = tb_customerId d, cb_sessionId = tb_sessionId d,
              cb_action = tb_action d, cb_productId = tb_productId d,
              cb_searchQuery = tb_searchQuery d, cb_timestamp = now,
              cb_deviceType = Some ''desktop'', cb_source = Some ''direct''\<rparr>])"
  using assms
  by (simp add: trackBehavior_def trackBehavior_try_def insert_customerBehavior_def with_events_def)

lemma with_events_fields:
  "stores (with_events s url rows) = stores s"
  "products (databases (with_events s url rows) url) = products (databases s url)"
  by (simp_all add: with_events_def)

lemma getStoreDatabase_with_events:
  "getStoreDatabase (with_events s url rows) sid = getStoreDatabase s sid"
  by (simp add: getStoreDatabase_def getStore_def with_events_fields)

lemma with_events_Nil: "with_events s url [] = s"
  by (simp add: with_events_def)

lemma with_events_twice: "with_events (with_events s url xs) url ys = with_events s url (xs @ ys)"
  by (simp add: with_events_def)

lemma ex_track_step:
  assumes "getStoreDatabase s sid = Inr url" and "references p (products (databases s url))"
  shows "trackBehavior s 500 (ex_track sid None p) = Inr (with_events s url [ex_tracked_row p])"
proof -
  have h: "getStoreDatabase s (tb_storeId (ex_track sid None p)) = Inr url"
    using assms(1) by (simp add: ex_track_def)
  have c: "references (tb_customerId (ex_track sid None p)) (customers (databases s url))"
    by (simp add: references_def ex_track_def)
  have q: "references (tb_productId (ex_track sid None p)) (products (databases s url))"
    using assms(2) by (simp add: ex_track_def)
  show ?thesis
    unfolding trackBehavior_appends [OF h c q]
    by (simp add: ex_track_def ex_tracked_row_def)
qed

lemma ex_track_all:
  assumes "getStoreDatabase s sid = Inr url"
    and "\<forall>p\<in>set ps. references p (products (databases s url))"
  shows "track_all s 500 (map (ex_track sid None) ps) = with_events s url (map ex_tracked_row ps)"
  using assms
proof (induction ps arbitrary: s)
  case Nil
  show ?case by (simp add: with_events_Nil)
next
  case (Cons p ps)
  from Cons.prems(2) have p: "references p (products (databases s url))"
    and ps: "\<forall>p\<in>set ps. references p (products (databases s url))"
    by simp_all
  let ?s' = "with_events s url [ex_tracked_row p]"
  have step: "trackBehavior s 500 (ex_track sid None p) = Inr ?s'"
    by (rule ex_track_step [OF Cons.prems(1) p])
  have s1: "getStoreDatabase ?s' sid = Inr url"
    using Cons.prems(1) by (simp only: getStoreDatabase_with_events)
  have s2: "\<forall>p\<in>set ps. references p (products (databases ?s' url))"
    using ps by (simp only: with_events_fields)
  have "track_all s 500 (map (ex_track sid None) (p # ps)) = track_all ?s' 500 (map (ex_track sid None) ps)"
    by (simp add: step)
  also have "\<dots> = with_events ?s' url (map ex_tracked_row ps)"
    by (rule Cons.IH [OF s1 s2])
  also have "\<dots> = with_events s url (map ex_tracked_row (p # ps))"
    by (simp add: with_events_twice)
  finally show ?case .
qed

lemma ex_anonymous_state:
  "track_all ex_empty_shop 500 ex_anonymous_views
     = ex_empty_shop\<lparr>databases := (databases ex_empty_shop)(''db1'' := ex_anonymous_db)\<rparr>"
proof -
  have "getStoreDatabase ex_empty_shop 1 = Inr ''db1''"
    by (simp add: getStoreDatabase_def getStore_def getStoreDbByUrl_def ex_empty_shop_def)
  then have "track_all ex_empty_shop 500 ex_anonymous_views
      = with_events ex_empty_shop ''db1''
          (map ex_tracked_row [None, None, None, None, None, Some 1, Some 1, Some 1])"
    unfolding ex_anonymous_views_def
    by (rule ex_track_all) (simp add: ex_empty_shop_def emptyDb_def references_def)
  also have "\<dots> = ex_empty_shop\<lparr>databases := (databases ex_empty_shop)(''db1'' := ex_anonymous_db)\<rparr>"
    by (simp add: with_events_def ex_empty_shop_def ex_anonymous_db_def emptyDb_def)
  finally show ?thesis .
qed

lemma ex_anonymous_events:
  "trendingEvents ex_anonymous_db 1000 (ex_trending_request 1)
     = map ex_tracked_row [None, None, None, None, None, Some 1, Some 1, Some 1]"
  by (simp add: trendingEvents_def ex_anonymous_db_def emptyDb_def ex_tracked_row_def
      ex_trending_request_def not_excluded_simps dflt_def interval_days_def)

lemma ex_anonymous_products:
  "trendingProducts ex_anonymous_db 1000 (ex_trending_request 1) = [(None, 5), (Some 1, 3)]"
  unfolding trendingProducts_def ex_anonymous_events
  by (simp add: group_by_def order_by_desc_def totalScore_def eventScore_def ex_tracked_row_def
      ex_trending_request_def dflt_def)

lemma ex_provisioned_eq:
  "ex_provisioned = ex_two_stores\<lparr>stores :=
      [\<lparr>st_id = 1, st_databaseUrl = ''main''\<rparr>, \<lparr>st_id = 2, st_databaseUrl = ''main''\<rparr>]\<rparr>"
  by (simp add: ex_provisioned_def createStoreDatabase_def ex_two_stores_def Let_def)

lemma ex_provisioned_handles:
  "getStoreDatabase ex_provisioned 1 = Inr ''main''"
  "getStoreDatabase ex_provisioned 2 = Inr ''main''"
  by (simp_all add: ex_provisioned_eq getStoreDatabase_def getStore_def getStoreDbByUrl_def
      ex_two_stores_def)

lemma ex_provisioned_tracked:
  "track_all ex_provisioned 500 (map (ex_track 1 None) [Some 7, Some 7, Some 7])
     = with_events ex_provisioned ''main'' (map ex_tracked_row [Some 7, Some 7, Some 7])"
  by (rule ex_track_all [OF ex_provisioned_handles(1)])
     (simp add: ex_provisioned_eq ex_two_stores_def emptyDb_def references_def)

lemma ex_shared_db:
  "databases (with_events ex_provisioned ''main'' rows) ''main''
     = emptyDb\<lparr>products := [7], customerBehavior := rows\<rparr>"
  by (simp add: with_events_def ex_provisioned_eq ex_two_stores_def emptyDb_def)

lemma ex_repeat_purchased:
  "purchasedBy (customerBehavior ex_repeat_db) (Some c)
     = (if c = 1 then [Some 10, Some 11] else if c = 2 then [Some 10, Some 11, Some 12]
        else if c = 3 then [Some 10, Some 10, Some 12] else [])"
  by (simp add: purchasedBy_def ex_repeat_db_def ex_event_def emptyDb_def)

lemma ex_repeat_similar:
  "similarCustomers ex_repeat_db (Some 1) = [(Some 1, 2), (Some 2, 2), (Some 3, 2)]"
proof -
  have p: "purchasedBy (customerBehavior ex_repeat_db) (Some 1) = [Some 10, Some 11]"
    by (simp add: ex_repeat_purchased)
  show ?thesis
    unfolding similarCustomers_def Let_def p
    by (simp add: ex_repeat_db_def ex_event_def emptyDb_def sql_in_def group_by_def order_by_desc_def)
qed

lemma ex_repeat_recommended:
  "recommendedProducts ex_repeat_db ex_collaborative_request [Some 2, Some 3] = [(Some 12, 2)]"
proof -
  have c: "req_customerId ex_collaborative_request = Some 1"
    and e: "dflt [] (req_excludeProductIds ex_collaborative_request) = []"
    and l: "dflt 10 (req_limit ex_collaborative_request) = 10"
    by (simp_all add: ex_collaborative_request_def dflt_def)
  have p: "purchasedBy (customerBehavior ex_repeat_db) (Some 1) = [Some 10, Some 11]"
    by (simp add: ex_repeat_purchased)
  show ?thesis
    unfolding recommendedProducts_def Let_def c e l p
    by (simp add: ex_repeat_db_def ex_event_def emptyDb_def sql_in_def sql_not_in_def
        not_excluded_simps group_by_def order_by_desc_def)
qed

lemma ex_repeat_query:
  "collaborativeQuery ex_repeat_db ex_collaborative_request
     = [\<lparr>productId = 12, score = 2 / 10, type = ''collaborative'',
         reasons = [''Customers like you also purchased this'']\<rparr>]"
proof -
  have c: "req_customerId ex_collaborative_request = Some 1"
    by (simp add: ex_collaborative_request_def)
  show ?thesis
    unfolding collaborativeQuery_rows Let_def c ex_repeat_similar
    by (simp add: truthy_def ex_repeat_recommended)
qed

subsection \<open>The five most recent views and the three most frequent categories\<close>












subsection \<open>Rejected exclusion parameters\<close>

lemma exclusion_many:
  assumes "1 < length ids"
  shows "exclusion ids = Inl (StorageError ''invalid input syntax for type integer'')"
proof (cases ids)
  case Nil
  with assms show ?thesis by simp
next
  case (Cons x xs)
  with assms show ?thesis by (cases xs) (simp_all add: exclusion_simps)
qed

lemma recentlyViewedQuery_many:
  "1 < length (dflt [] (req_excludeProductIds request)) \<Longrightarrow> recentlyViewedQuery db now request = []"
  by (simp add: recentlyViewedQuery_def exclusion_many)

lemma trendingQuery_many:
  "1 < length (dflt [] (req_excludeProductIds request)) \<Longrightarrow> trendingQuery db now request = []"
  by (simp add: trendingQuery_def exclusion_many)

lemma collaborativeQuery_many:
  "1 < length (dflt [] (req_excludeProductIds request)) \<Longrightarrow> collaborativeQuery db request = []"
  by (simp add: collaborativeQuery_def Let_def exclusion_many)

lemma contentBasedQuery_many:
  "1 < length (dflt [] (req_excludeProductIds request)) \<Longrightarrow> contentBasedQuery db request = []"
  by (cases "not_in_joined (viewedProducts db request)")
     (simp_all add: contentBasedQuery_def Let_def exclusion_many)

lemma combine_Nil: "combine limit [] [] [] [] = []"
  by (simp add: combine_def allRecommendations_def mergeRecommendations_def order_by_desc_def)

lemma generateHybridRecommendations_many:
  assumes "1 < length (dflt [] (req_excludeProductIds request))"
  shows "generateHybridRecommendations s now request = []"
proof (cases "getStoreDatabase s (req_storeId request)")
  case (Inl e)
  then show ?thesis by (simp add: generateHybridRecommendations_eq)
next
  case (Inr h)
  from assms have "\<And>l. 1 < length (dflt [] (req_excludeProductIds (request\<lparr>req_limit := l\<rparr>)))"
    by simp
  with Inr show ?thesis
    by (simp add: generateHybridRecommendations_eq collaborativeQuery_many contentBasedQuery_many
        trendingQuery_many recentlyViewedQuery_many combine_Nil)
qed

lemma generateRecommendations_many:
  assumes "1 < length (dflt [] (req_excludeProductIds request))"
  shows "generateRecommendations s now request = []"
  using assms
  by (cases "dflt Hybrid (req_type request)")
     (simp_all add: generateRecommendations_def generateCollaborativeRecommendations_def
        generateContentBasedRecommendations_def generateTrendingRecommendations_def
        generateRecentlyViewedRecommendations_def generateHybridRecommendations_many
        collaborativeQuery_many contentBasedQuery_many trendingQuery_many recentlyViewedQuery_many
        split: sum.splits)

lemma generateRecommendations_not_excluded:
  assumes r: "r \<in> set (generateRecommendations s now request)"
  shows "productId r \<notin> set (dflt [] (req_excludeProductIds request))"
proof (cases "dflt Hybrid (req_type request)")
  case Collaborative
  with r have "r \<in> set (collaborativeQuery (databases s (projr (getStoreDatabase s (req_storeId request)))) request)"
    by (auto simp: generateRecommendations_def generateCollaborativeRecommendations_def split: sum.splits)
  from collaborativeQuery_not_excluded [OF this] show ?thesis .
next
  case ContentBased
  with r have "r \<in> set (contentBasedQuery (databases s (projr (getStoreDatabase s (req_storeId request)))) request)"
    by (auto simp: generateRecommendations_def generateContentBasedRecommendations_def split: sum.splits)
  from contentBasedQuery_not_excluded [OF this] show ?thesis .
next
  case Trending
  with r have "r \<in> set (trendingQuery (databases s (projr (getStoreDatabase s (req_storeId request)))) now request)"
    by (auto simp: generateRecommendations_def generateTrendingRecommendations_def split: sum.splits)
  from trendingQuery_not_excluded [OF this] show ?thesis .
next
  case RecentlyViewed
  with r have "r \<in> set (recentlyViewedQuery (databases s (projr (getStoreDatabase s (req_storeId request)))) now request)"
    by (auto simp: generateRecommendations_def generateRecentlyViewedRecommendations_def split: sum.splits)
  from recentlyViewedQuery_not_excluded [OF this] show ?thesis .
next
  case Hybrid
  with r have "r \<in> set (generateHybridRecommendations s now request)"
    by (simp add: generateRecommendations_def)
  from hybrid_not_excluded [OF this] show ?thesis .
qed

subsection \<open>The collaborative scenario\<close>

lemma two_members_length:
  assumes "x \<in> set xs" "y \<in> set xs" "x \<noteq> y"
  shows "2 \<le> length xs"
proof -
  from assms have "{x, y} \<subseteq> set xs" by simp
  then have "card {x, y} \<le> card (set xs)" by (intro card_mono) simp_all
  moreover have "card {x, y} = 2" using assms(3) by simp
  moreover have "card (set xs) \<le> length xs" by (rule card_length)
  ultimately show ?thesis by linarith
qed

lemma distinct_keys_length:
  assumes "distinct (map fst xs)" and "fst ` set xs \<subseteq> S" and "finite S"
  shows "length xs \<le> card S"
proof -
  have "length xs = length (map fst xs)" by simp
  also have "\<dots> = card (set (map fst xs))" using assms(1) by (simp only: distinct_card)
  also have "\<dots> \<le> card S" using assms(2,3) by (intro card_mono) simp_all
  finally show ?thesis .
qed

lemma purchasedProducts_member:
  "p \<in> purchasedProducts db c \<longleftrightarrow>
     (\<exists>r\<in>set (customerBehavior db). cb_customerId r = Some c \<and> cb_action r = Purchase \<and> cb_productId r = p)"
  by (auto simp: purchasedProducts_def purchasedBy_def)

lemma scenario_similar:
  assumes sc: "purchaseScenario db C D A B X"
  shows "similarCustomers db (Some C) \<noteq> [] \<and>
         Some D \<in> fst ` set (similarCustomers db (Some C)) \<and>
         fst ` set (similarCustomers db (Some C)) \<subseteq> {Some C, Some D, None}"
proof -
  let ?rows = "customerBehavior db"
  let ?pc = "purchasedBy ?rows (Some C)"
  let ?sel = "filter (\<lambda>r. cb_action r = Purchase \<and> sql_in (cb_productId r) ?pc) ?rows"
  let ?having = "filter (\<lambda>(c, n). n > 1) (map (\<lambda>(c, g). (c, length g)) (group_by cb_customerId ?sel))"
  from sc have pc: "set ?pc = {Some A, Some B}" and AB: "A \<noteq> B"
    and pd: "purchasedProducts db D = {Some A, Some B, Some X}"
    and others: "\<And>E. E \<noteq> C \<Longrightarrow> E \<noteq> D \<Longrightarrow> purchaseEvents db E {Some A, Some B} \<le> 1"
    by (simp_all add: purchaseScenario_def purchasedProducts_def)
  have sel: "?sel = filter (\<lambda>r. cb_action r = Purchase \<and> cb_productId r \<in> {Some A, Some B}) ?rows"
    by (rule filter_cong) (auto simp: sql_in_def pc)
  have count: "\<And>E. length (filter (\<lambda>r. cb_customerId r = Some E) ?sel) = purchaseEvents db E {Some A, Some B}"
    unfolding sel purchaseEvents_def filter_filter
    by (rule arg_cong [where f = length], rule filter_cong) auto
  have mem: "\<And>k n. (k, n) \<in> set ?having \<longleftrightarrow>
      k \<in> cb_customerId ` set ?sel \<and> n = length (filter (\<lambda>r. cb_customerId r = k) ?sel) \<and> 1 < n"
    by (auto simp: group_by_member)
  have keys: "fst ` set ?having \<subseteq> {Some C, Some D, None}"
  proof
    fix k assume "k \<in> fst ` set ?having"
    then obtain n where kn: "(k, n) \<in> set ?having" by force
    show "k \<in> {Some C, Some D, None}"
    proof (cases k)
      case None
      then show ?thesis by simp
    next
      case (Some E)
      from kn have "n = length (filter (\<lambda>r. cb_customerId r = k) ?sel) \<and> 1 < n"
        using mem by blast
      with Some have "1 < length (filter (\<lambda>r. cb_customerId r = Some E) ?sel)"
        by blast
      then have "1 < purchaseEvents db E {Some A, Some B}" by (simp only: count)
      with others [of E] have "E = C \<or> E = D" by force
      with Some show ?thesis by auto
    qed
  qed
  from pd obtain ra rb where ra: "ra \<in> set ?rows" "cb_customerId ra = Some D" "cb_action ra = Purchase"
      "cb_productId ra = Some A"
    and rb: "rb \<in> set ?rows" "cb_customerId rb = Some D" "cb_action rb = Purchase"
      "cb_productId rb = Some B"
    using purchasedProducts_member [of "Some A" db D] purchasedProducts_member [of "Some B" db D]
    by auto
  from ra rb AB have "ra \<noteq> rb" by auto
  moreover from ra have ina: "ra \<in> set (filter (\<lambda>r. cb_customerId r = Some D) ?sel)" by (simp add: sel)
  moreover from rb have "rb \<in> set (filter (\<lambda>r. cb_customerId r = Some D) ?sel)" by (simp add: sel)
  ultimately have "2 \<le> length (filter (\<lambda>r. cb_customerId r = Some D) ?sel)"
    by (intro two_members_length [of ra _ rb])
  moreover from ina ra have "Some D \<in> cb_customerId ` set ?sel" by force
  ultimately have D: "(Some D, length (filter (\<lambda>r. cb_customerId r = Some D) ?sel)) \<in> set ?having"
    by (simp only: mem) simp
  have "distinct (map fst ?having)"
    by (simp add: distinct_map_filter distinct_group_by)
  from distinct_keys_length [OF this keys] have "length ?having \<le> card {Some C, Some D, None}" by simp
  also have "\<dots> \<le> 3" by (simp add: card_insert_if)
  finally have len: "length ?having \<le> 20" by simp
  have sim: "similarCustomers db (Some C) = order_by_desc (\<lambda>(c, n). int n) ?having"
    using len by (simp add: similarCustomers_def Let_def)
  have s: "set (similarCustomers db (Some C)) = set ?having"
    unfolding sim by (rule set_order_by_desc)
  from D have inD: "Some D \<in> fst ` set ?having" by force
  have ne: "similarCustomers db (Some C) \<noteq> []"
  proof
    assume "similarCustomers db (Some C) = []"
    then have "set (similarCustomers db (Some C)) = {}" by simp
    with s D show False by (metis empty_iff)
  qed
  from ne inD keys show ?thesis unfolding s by blast
qed


lemma scenario_recommended:
  assumes sc: "purchaseScenario db C D A B X"
    and c: "req_customerId request = Some C"
    and noexcl: "dflt [] (req_excludeProductIds request) = []"
    and lim: "0 < dflt 10 (req_limit request)"
    and ids: "Some D \<in> set ids" "set ids \<subseteq> {Some D, None}"
  shows "recommendedProducts db request ids = [(Some X, 1)]"
proof -
  let ?rows = "customerBehavior db"
  let ?pc = "purchasedBy ?rows (Some C)"
  let ?sel = "filter (\<lambda>r. cb_action r = Purchase
                           \<and> sql_in (cb_customerId r) ids
                           \<and> sql_not_in (cb_productId r) ?pc
                           \<and> not_excluded (cb_productId r) []) ?rows"
  let ?fx = "filter (\<lambda>r. cb_customerId r = Some D \<and> cb_action r = Purchase
                          \<and> cb_productId r \<in> {Some X}) ?rows"
  from sc have XA: "X \<noteq> A" and XB: "X \<noteq> B" by (simp_all add: purchaseScenario_def)
  from sc have pcC: "purchasedProducts db C = {Some A, Some B}" by (simp add: purchaseScenario_def)
  from sc have pd: "purchasedProducts db D = {Some A, Some B, Some X}" by (simp add: purchaseScenario_def)
  from sc have "purchaseEvents db D {Some X} = 1" by (simp add: purchaseScenario_def)
  then have one: "length ?fx = 1" by (simp only: purchaseEvents_def)
  from pcC have pc: "set ?pc = {Some A, Some B}" by (simp only: purchasedProducts_def)
  have pcne: "?pc \<noteq> []"
  proof
    assume "?pc = []"
    then have "set ?pc = {}" by simp
    with pc show False by simp
  qed
  have nonull: "None \<notin> set ?pc" unfolding pc by simp
  have Xnot: "Some X \<notin> set ?pc" unfolding pc using XA XB by simp
  have sel: "?sel = ?fx"
  proof (rule filter_cong [OF refl])
    fix r assume r: "r \<in> set ?rows"
    show "(cb_action r = Purchase \<and> sql_in (cb_customerId r) ids
             \<and> sql_not_in (cb_productId r) ?pc \<and> not_excluded (cb_productId r) [])
        = (cb_customerId r = Some D \<and> cb_action r = Purchase \<and> cb_productId r \<in> {Some X})"
    proof
      assume l: "cb_action r = Purchase \<and> sql_in (cb_customerId r) ids
             \<and> sql_not_in (cb_productId r) ?pc \<and> not_excluded (cb_productId r) []"
      then have act: "cb_action r = Purchase" and si: "sql_in (cb_customerId r) ids"
        and sni: "sql_not_in (cb_productId r) ?pc" by blast+
      from si have "cb_customerId r \<noteq> None" "cb_customerId r \<in> set ids"
        unfolding sql_in_def by blast+
      with ids(2) have cd: "cb_customerId r = Some D" by auto
      from r cd act have "cb_productId r \<in> purchasedProducts db D"
        unfolding purchasedProducts_member by blast
      then have in3: "cb_productId r \<in> {Some A, Some B, Some X}" unfolding pd .
      from sni pcne have "cb_productId r \<notin> set ?pc" unfolding sql_not_in_def by blast
      then have "cb_productId r \<notin> {Some A, Some B}" unfolding pc .
      with in3 have "cb_productId r = Some X" by blast
      with cd act show "cb_customerId r = Some D \<and> cb_action r = Purchase \<and> cb_productId r \<in> {Some X}"
        by simp
    next
      assume rhs: "cb_customerId r = Some D \<and> cb_action r = Purchase \<and> cb_productId r \<in> {Some X}"
      then have cd: "cb_customerId r = Some D" and act: "cb_action r = Purchase"
        and px: "cb_productId r = Some X" by simp_all
      have "sql_in (cb_customerId r) ids" unfolding sql_in_def cd using ids(1) by simp
      moreover have "sql_not_in (cb_productId r) ?pc"
        unfolding sql_not_in_def px using nonull Xnot by simp
      moreover have "not_excluded (cb_productId r) []" by (simp add: not_excluded_simps)
      ultimately show "cb_action r = Purchase \<and> sql_in (cb_customerId r) ids
             \<and> sql_not_in (cb_productId r) ?pc \<and> not_excluded (cb_productId r) []"
        using act by blast
    qed
  qed
  from one obtain r0 where fx: "?fx = [r0]" by (cases ?fx) simp_all
  have "r0 \<in> set ?fx" unfolding fx by simp
  then have p0: "cb_productId r0 = Some X" by simp
  have g: "group_by cb_productId [r0] = [(Some X, [r0])]" by (simp add: group_by_def p0)
  obtain n where n: "dflt 10 (req_limit request) = Suc n"
    using lim by (cases "dflt 10 (req_limit request)") simp_all
  have "take (dflt 10 (req_limit request))
               (order_by_desc (\<lambda>(p, n). int n)
                  (map (\<lambda>(p, g). (p, length g)) (group_by cb_productId [r0]))) = [(Some X, 1)]"
    unfolding g n by (simp add: order_by_desc_def)
  then show ?thesis
    unfolding recommendedProducts_def Let_def c noexcl sel fx .
qed



lemma scenario_query:
  assumes sc: "purchaseScenario db C D A B X"
    and c: "req_customerId request = Some C"
    and noexcl: "dflt [] (req_excludeProductIds request) = []"
    and lim: "0 < dflt 10 (req_limit request)"
  shows "collaborativeQuery db request
       = [\<lparr>productId = X, score = min (1 / 10) 1, type = ''collaborative'',
           reasons = [''Customers like you also purchased this'']\<rparr>]"
proof -
  let ?similar = "similarCustomers db (Some C)"
  let ?ids = "filter (\<lambda>id. id \<noteq> Some C) (map fst ?similar)"
  from sc have C0: "C \<noteq> 0" and CD: "C \<noteq> D" and X0: "X \<noteq> 0"
    by (simp_all add: purchaseScenario_def)
  note similar = scenario_similar [OF sc]
  from similar have ne: "?similar \<noteq> []" by (rule conjunct1)
  from similar have D: "Some D \<in> fst ` set ?similar" by (rule conjunct1 [OF conjunct2])
  from similar have sub: "fst ` set ?similar \<subseteq> {Some C, Some D, None}"
    by (rule conjunct2 [OF conjunct2])
  from D CD have ids1: "Some D \<in> set ?ids" by simp
  from sub have ids2: "set ?ids \<subseteq> {Some D, None}" by auto
  have r: "recommendedProducts db request ?ids = [(Some X, 1)]"
    by (rule scenario_recommended [OF sc c noexcl lim ids1 ids2])
  have t: "truthy (Some C)" using C0 by (simp add: truthy_def)
  have q: "collaborativeQuery db request =
      (if \<not> truthy (Some C) then []
       else if ?similar = [] then []
       else map (\<lambda>item. \<lparr>productId = fst item, score = min (real (snd item) / 10) 1,
                          type = ''collaborative'',
                          reasons = [''Customers like you also purchased this'']\<rparr>)
              (concat (map withProductId (recommendedProducts db request ?ids))))"
    by (simp only: collaborativeQuery_rows Let_def c)
  have w: "concat (map withProductId [(Some X, 1::nat)]) = [(X, 1)]" using X0 by simp
  show ?thesis
    unfolding q r w using t ne by simp
qed

lemma ex_shop_scenario: "purchaseScenario ex_shop_db 1 2 10 11 12"
proof -
  have "purchasedProducts ex_shop_db 1 = {Some 10, Some 11}"
    "purchasedProducts ex_shop_db 2 = {Some 10, Some 11, Some 12}"
    by (auto simp: purchasedProducts_def purchasedBy_def ex_shop_db_def ex_event_def)
  moreover have "purchaseEvents ex_shop_db 2 {Some 12} = 1"
    by (simp add: purchaseEvents_def ex_shop_db_def ex_event_def)
  moreover have "\<forall>E. E \<noteq> 1 \<and> E \<noteq> 2 \<longrightarrow> purchaseEvents ex_shop_db E {Some 10, Some 11} \<le> 1"
    by (simp add: purchaseEvents_def ex_shop_db_def ex_event_def)
  ultimately show ?thesis unfolding purchaseScenario_def by simp
qed



lemma ex_shop_of_run:
  "generateRecommendations (ex_shop_of db) now ex_collaborative_request
     = collaborativeQuery db ex_collaborative_request"
  "generateRecommendations (ex_shop_of db) now (ex_collaborative_request\<lparr>req_limit := l\<rparr>)
     = collaborativeQuery db (ex_collaborative_request\<lparr>req_limit := l\<rparr>)"
  by (simp_all add: generateRecommendations_def generateCollaborativeRecommendations_def
      getStoreDatabase_def getStore_def getStoreDbByUrl_def ex_shop_of_def
      ex_collaborative_request_def dflt_def)

lemma ex_twice_purchased:
  "purchasedBy (customerBehavior ex_twice_db) (Some c)
     = (if c = 1 then [Some 10, Some 11] else if c = 2 then [Some 10, Some 11, Some 12, Some 12]
        else [])"
  by (simp add: purchasedBy_def ex_twice_db_def ex_event_def emptyDb_def)

lemma ex_twice_similar:
  "similarCustomers ex_twice_db (Some 1) = [(Some 1, 2), (Some 2, 2)]"
proof -
  have p: "purchasedBy (customerBehavior ex_twice_db) (Some 1) = [Some 10, Some 11]"
    by (simp add: ex_twice_purchased)
  show ?thesis
    unfolding similarCustomers_def Let_def p
    by (simp add: ex_twice_db_def ex_event_def emptyDb_def sql_in_def group_by_def order_by_desc_def)
qed

lemma ex_twice_recommended:
  "recommendedProducts ex_twice_db ex_collaborative_request [Some 2] = [(Some 12, 2)]"
proof -
  have c: "req_customerId ex_collaborative_request = Some 1"
    and e: "dflt [] (req_excludeProductIds ex_collaborative_request) = []"
    and l: "dflt 10 (req_limit ex_collaborative_request) = 10"
    by (simp_all add: ex_collaborative_request_def dflt_def)
  have p: "purchasedBy (customerBehavior ex_twice_db) (Some 1) = [Some 10, Some 11]"
    by (simp add: ex_twice_purchased)
  show ?thesis
    unfolding recommendedProducts_def Let_def c e l p
    by (simp add: ex_twice_db_def ex_event_def emptyDb_def sql_in_def sql_not_in_def
        not_excluded_simps group_by_def order_by_desc_def)
qed

lemma ex_twice_query:
  "collaborativeQuery ex_twice_db ex_collaborative_request
     = [\<lparr>productId = 12, score = 2 / 10, type = ''collaborative'',
         reasons = [''Customers like you also purchased this'']\<rparr>]"
proof -
  have c: "req_customerId ex_collaborative_request = Some 1"
    by (simp add: ex_collaborative_request_def)
  show ?thesis
    unfolding collaborativeQuery_rows Let_def c ex_twice_similar
    by (simp add: truthy_def ex_twice_recommended)
qed

lemma ex_zero_purchased:
  "purchasedBy (customerBehavior ex_zero_db) (Some c)
     = (if c = 1 then [Some 10, Some 11] else if c = 2 then [Some 10, Some 11, Some 0] else [])"
  by (simp add: purchasedBy_def ex_zero_db_def ex_event_def emptyDb_def)

lemma ex_zero_similar:
  "similarCustomers ex_zero_db (Some 1) = [(Some 1, 2), (Some 2, 2)]"
proof -
  have p: "purchasedBy (customerBehavior ex_zero_db) (Some 1) = [Some 10, Some 11]"
    by (simp add: ex_zero_purchased)
  show ?thesis
    unfolding similarCustomers_def Let_def p
    by (simp add: ex_zero_db_def ex_event_def emptyDb_def sql_in_def group_by_def order_by_desc_def)
qed

lemma ex_zero_recommended:
  "recommendedProducts ex_zero_db ex_collaborative_request [Some 2] = [(Some 0, 1)]"
proof -
  have c: "req_customerId ex_collaborative_request = Some 1"
    and e: "dflt [] (req_excludeProductIds ex_collaborative_request) = []"
    and l: "dflt 10 (req_limit ex_collaborative_request) = 10"
    by (simp_all add: ex_collaborative_request_def dflt_def)
  have p: "purchasedBy (customerBehavior ex_zero_db) (Some 1) = [Some 10, Some 11]"
    by (simp add: ex_zero_purchased)
  show ?thesis
    unfolding recommendedProducts_def Let_def c e l p
    by (simp add: ex_zero_db_def ex_event_def emptyDb_def sql_in_def sql_not_in_def
        not_excluded_simps group_by_def order_by_desc_def)
qed

lemma ex_zero_query: "collaborativeQuery ex_zero_db ex_collaborative_request = []"
proof -
  have c: "req_customerId ex_collaborative_request = Some 1"
    by (simp add: ex_collaborative_request_def)
  show ?thesis
    unfolding collaborativeQuery_rows Let_def c ex_zero_similar
    by (simp add: truthy_def ex_zero_recommended)
qed

lemma recommendedProducts_limit_zero:
  "dflt 10 (req_limit request) = 0 \<Longrightarrow> recommendedProducts db request ids = []"
  by (simp add: recommendedProducts_def Let_def)

lemma collaborativeQuery_limit_zero:
  "dflt 10 (req_limit request) = 0 \<Longrightarrow> collaborativeQuery db request = []"
  by (simp add: collaborativeQuery_rows Let_def recommendedProducts_limit_zero)


section \<open>Behavior tracking never raises\<close>

text \<open>
  C4. \<open>trackBehavior\<close> never raises to its caller. For every state, clock and input it
  returns normally: either the body of its \<open>try\<close> ran through and its result is the new
  state, or the body failed (the store does not resolve, or the insert is rejected) and
  the only effect is one more line on the console.
\<close>

theorem trackBehavior_never_raises:
  "\<exists>s'. trackBehavior s now data = Inr s' \<and>
     (trackBehavior_try s now data = Inr s' \<or>
      (isl (trackBehavior_try s now data) \<and> stores s' = stores s \<and> databases s' = databases s
         \<and> console s' = console s @ [''Error tracking customer behavior:'']))"
  by (cases "trackBehavior_try s now data") (simp_all add: trackBehavior_def)

text \<open>The two failures the body can meet, on the example state: an unknown store \<dots>\<close>

lemma trackBehavior_unknown_store:
  "trackBehavior_try ex_feedback_state 100 (ex_track 9 None None) = Inl (StoreNotFound 9) \<and>
   trackBehavior ex_feedback_state 100 (ex_track 9 None None)
     = Inr (ex_feedback_state\<lparr>console := [''Error tracking customer behavior:'']\<rparr>)"
  by (simp add: trackBehavior_def trackBehavior_try_def getStoreDatabase_def getStore_def
      ex_feedback_state_def ex_track_def)

text \<open>\<dots> and an insert that the database rejects (the product does not exist).\<close>

lemma trackBehavior_failing_insert:
  "isl (trackBehavior_try ex_feedback_state 100 (ex_track 1 None (Some 77))) \<and>
   trackBehavior ex_feedback_state 100 (ex_track 1 None (Some 77))
     = Inr (ex_feedback_state\<lparr>console := [''Error tracking customer behavior:'']\<rparr>)"
  by (simp add: trackBehavior_def trackBehavior_try_def getStoreDatabase_def getStore_def
      getStoreDbByUrl_def insert_customerBehavior_def references_def emptyDb_def
      ex_feedback_state_def ex_track_def)

section \<open>Recommendation feedback\<close>

text \<open>
  C9. When the store resolves, \<open>trackRecommendationFeedback\<close> with action \<open>clicked\<close>
  returns normally and changes nothing but the \<open>recommendations\<close> table of that store's
  database: every row selected by the \<open>WHERE\<close> clause (same product, and same customer
  when a customer id is given, same session otherwise) gets \<open>clicked = true\<close> and
  \<open>clickedAt = now\<close> with all its other fields, \<open>shown\<close> and \<open>purchased\<close> among them, as
  they were; every other row stays as it was; and when no row is selected the state is
  unchanged.
\<close>

theorem feedback_clicked_frame:
  assumes "getStoreDatabase s (fb_storeId data) = Inr h" and "fb_action data = Clicked"
  shows "\<exists>s'. trackRecommendationFeedback s now data = Inr s' \<and>
     stores s' = stores s \<and> console s' = console s \<and> env_DATABASE_URL s' = env_DATABASE_URL s \<and>
     (\<forall>u. u \<noteq> h \<longrightarrow> databases s' u = databases s u) \<and>
     customers (databases s' h) = customers (databases s h) \<and>
     products (databases s' h) = products (databases s h) \<and>
     customerBehavior (databases s' h) = customerBehavior (databases s h) \<and>
     productViews (databases s' h) = productViews (databases s h) \<and>
     productCategoryMappings (databases s' h) = productCategoryMappings (databases s h) \<and>
     length (recommendations (databases s' h)) = length (recommendations (databases s h)) \<and>
     (\<forall>i<length (recommendations (databases s h)).
        let old = recommendations (databases s h) ! i; new = recommendations (databases s' h) ! i in
        if feedback_matches data old
        then new = old\<lparr>rec_clicked := True, rec_clickedAt := Some now\<rparr>
           \<and> rec_clicked new \<and> rec_clickedAt new \<noteq> None
           \<and> rec_shown new = rec_shown old \<and> rec_purchased new = rec_purchased old
           \<and> rec_shownAt new = rec_shownAt old \<and> rec_purchasedAt new = rec_purchasedAt old
        else new = old) \<and>
     ((\<forall>r\<in>set (recommendations (databases s h)). \<not> feedback_matches data r) \<longrightarrow> s' = s)"
proof -
  let ?upd = "\<lambda>r. if feedback_matches data r then updateData (fb_action data) now r else r"
  let ?db = "databases s h"
  let ?s' = "s\<lparr>databases := (databases s)(h := ?db\<lparr>recommendations := map ?upd (recommendations ?db)\<rparr>)\<rparr>"
  have run: "trackRecommendationFeedback s now data = Inr ?s'"
    using assms(1) by (simp add: trackRecommendationFeedback_def)
  have noop: "(\<forall>r\<in>set (recommendations ?db). \<not> feedback_matches data r) \<longrightarrow> ?s' = s"
  proof
    assume "\<forall>r\<in>set (recommendations ?db). \<not> feedback_matches data r"
    then have "map ?upd (recommendations ?db) = recommendations ?db"
      by (rule map_if_unchanged)
    then show "?s' = s" by simp
  qed
  have rows: "\<forall>i<length (recommendations ?db).
        let old = recommendations ?db ! i; new = recommendations (databases ?s' h) ! i in
        if feedback_matches data old
        then new = old\<lparr>rec_clicked := True, rec_clickedAt := Some now\<rparr>
           \<and> rec_clicked new \<and> rec_clickedAt new \<noteq> None
           \<and> rec_shown new = rec_shown old \<and> rec_purchased new = rec_purchased old
           \<and> rec_shownAt new = rec_shownAt old \<and> rec_purchasedAt new = rec_purchasedAt old
        else new = old"
    using assms(2) by (simp add: updateData_def Let_def)
  show ?thesis
    apply (rule exI [of _ ?s'])
    using run noop rows by simp
qed

text \<open>
  On the example state the call for session \<open>s1\<close> and product 5 marks the first row and
  leaves the row of session \<open>s2\<close> alone.
\<close>

theorem feedback_clicked_frame_witness:
  "getStoreDatabase ex_feedback_state (fb_storeId ex_feedback) = Inr ''db1'' \<and>
   fb_action ex_feedback = Clicked \<and>
   (\<exists>s'. trackRecommendationFeedback ex_feedback_state 100 ex_feedback = Inr s' \<and>
      recommendations (databases s' ''db1'')
        = [(ex_recommendation ''s1'' 5)\<lparr>rec_clicked := True, rec_clickedAt := Some 100\<rparr>,
           ex_recommendation ''s2'' 5])"
proof -
  have h: "getStoreDatabase ex_feedback_state (fb_storeId ex_feedback) = Inr ''db1''"
    by (simp add: getStoreDatabase_def getStore_def getStoreDbByUrl_def ex_feedback_state_def
        ex_feedback_def)
  have a: "fb_action ex_feedback = Clicked" by (simp add: ex_feedback_def)
  have old: "recommendations (databases ex_feedback_state ''db1'')
      = [ex_recommendation ''s1'' 5, ex_recommendation ''s2'' 5]"
    by (simp add: ex_feedback_state_def)
  have m0: "feedback_matches ex_feedback (ex_recommendation ''s1'' 5)"
    by (simp add: feedback_matches_def ex_feedback_def ex_recommendation_def truthy_def)
  have m1: "\<not> feedback_matches ex_feedback (ex_recommendation ''s2'' 5)"
    by (simp add: feedback_matches_def ex_feedback_def ex_recommendation_def truthy_def)
  from feedback_clicked_frame [OF h a, of 100] obtain s' where
    run: "trackRecommendationFeedback ex_feedback_state 100 ex_feedback = Inr s'" and
    len: "length (recommendations (databases s' ''db1''))
            = length (recommendations (databases ex_feedback_state ''db1''))" and
    rows: "\<forall>i<length (recommendations (databases ex_feedback_state ''db1'')).
        let old = recommendations (databases ex_feedback_state ''db1'') ! i;
            new = recommendations (databases s' ''db1'') ! i in
        if feedback_matches ex_feedback old
        then new = old\<lparr>rec_clicked := True, rec_clickedAt := Some 100\<rparr>
           \<and> rec_clicked new \<and> rec_clickedAt new \<noteq> None
           \<and> rec_shown new = rec_shown old \<and> rec_purchased new = rec_purchased old
           \<and> rec_shownAt new = rec_shownAt old \<and> rec_purchasedAt new = rec_purchasedAt old
        else new = old"
    by blast
  from rows [rule_format, of 0] m0 old
  have r0: "recommendations (databases s' ''db1'') ! 0
      = (ex_recommendation ''s1'' 5)\<lparr>rec_clicked := True, rec_clickedAt := Some 100\<rparr>"
    by (simp add: Let_def)
  from rows [rule_format, of 1] m1 old
  have r1: "recommendations (databases s' ''db1'') ! 1 = ex_recommendation ''s2'' 5"
    by (simp add: Let_def)
  from len old have "length (recommendations (databases s' ''db1'')) = 2" by simp
  with r0 r1 have "recommendations (databases s' ''db1'')
      = [(ex_recommendation ''s1'' 5)\<lparr>rec_clicked := True, rec_clickedAt := Some 100\<rparr>,
         ex_recommendation ''s2'' 5]"
    by (intro nth_equalityI) (auto simp: less_Suc_eq numeral_2_eq_2)
  with run h a show ?thesis by blast
qed

section \<open>Recently viewed\<close>

text \<open>
  C10. In every result of the recently-viewed strategy the score at rank \<open>i\<close> is
  \<open>max (0.9 - 0.1 * i) 0.1\<close>: it never increases with the rank, starts at 0.9 and stays
  at or above 0.1. Every returned product has a view of this customer or session in the
  last 30 days, and the list is ordered by the latest such view of each product, most
  recent first.
\<close>

theorem recently_viewed_rank_scores:
  assumes "generateRecentlyViewedRecommendations s now request = Inr results"
  shows "(\<forall>i<length results. score (results ! i) = max (0.9 - 0.1 * real i) 0.1) \<and>
     (\<forall>i j. i \<le> j \<and> j < length results \<longrightarrow> score (results ! j) \<le> score (results ! i)) \<and>
     (results \<noteq> [] \<longrightarrow> score (results ! 0) = 0.9) \<and>
     (\<forall>r\<in>set results. 0.1 \<le> score r) \<and>
     (\<exists>h. getStoreDatabase s (req_storeId request) = Inr h \<and>
        (let rows = recentViews (databases s h) now request in
           (\<forall>r\<in>set results. \<exists>v\<in>set rows. pv_productId v = productId r
                \<and> pv_timestamp v = lastViewed rows (productId r)
                \<and> now - interval_days 30 < pv_timestamp v) \<and>
           (\<forall>i j. i \<le> j \<and> j < length results \<longrightarrow>
                lastViewed rows (productId (results ! j)) \<le> lastViewed rows (productId (results ! i)))))"
proof -
  from assms obtain h where h: "getStoreDatabase s (req_storeId request) = Inr h"
    and res: "results = recentlyViewedQuery (databases s h) now request"
    by (auto simp: generateRecentlyViewedRecommendations_def split: sum.splits)
  let ?db = "databases s h"
  let ?L = "recentlyViewedRows ?db now request"
  let ?rows = "recentViews ?db now request"
  have len: "length results = length ?L" by (simp add: res recentlyViewedQuery_length)
  have nth: "\<And>i. i < length ?L \<Longrightarrow> score (results ! i) = max (0.9 - 0.1 * real i) 0.1
                \<and> productId (results ! i) = fst (?L ! i)"
    by (simp add: res recentlyViewedQuery_nth mult.commute)
  have sc: "\<forall>i<length results. score (results ! i) = max (0.9 - 0.1 * real i) 0.1"
    using nth len by simp
  have mono: "\<forall>i j. i \<le> j \<and> j < length results \<longrightarrow> score (results ! j) \<le> score (results ! i)"
  proof (intro allI impI)
    fix i j assume ij: "i \<le> j \<and> j < length results"
    then have "score (results ! j) = max (0.9 - 0.1 * real j) 0.1"
      and "score (results ! i) = max (0.9 - 0.1 * real i) 0.1"
      using sc by auto
    moreover have "real i \<le> real j" using ij by simp
    ultimately show "score (results ! j) \<le> score (results ! i)" by (simp add: max_def)
  qed
  have first: "results \<noteq> [] \<longrightarrow> score (results ! 0) = 0.9"
    using sc by (cases results) auto
  have floor: "\<forall>r\<in>set results. 0.1 \<le> score r"
  proof
    fix r assume "r \<in> set results"
    then obtain i where "i < length results" "results ! i = r" by (metis in_set_conv_nth)
    with sc show "0.1 \<le> score r" by force
  qed
  have lv: "\<And>i. i < length ?L \<Longrightarrow> snd (?L ! i) = lastViewed ?rows (productId (results ! i))
       \<and> (\<exists>v\<in>set ?rows. pv_productId v = productId (results ! i) \<and> pv_timestamp v = snd (?L ! i))"
  proof -
    fix i assume i: "i < length ?L"
    then have "(fst (?L ! i), snd (?L ! i)) \<in> set ?L" by simp
    from recentlyViewedRows_member [OF this] nth [OF i] show "?thesis i" by metis
  qed
  have views: "\<forall>r\<in>set results. \<exists>v\<in>set ?rows. pv_productId v = productId r
                \<and> pv_timestamp v = lastViewed ?rows (productId r)
                \<and> now - interval_days 30 < pv_timestamp v"
  proof
    fix r assume "r \<in> set results"
    then obtain i where i: "i < length results" "results ! i = r" by (metis in_set_conv_nth)
    with lv [of i] len obtain v where v: "v \<in> set ?rows" "pv_productId v = productId r"
      "pv_timestamp v = lastViewed ?rows (productId r)" by auto
    moreover from v(1) have "now - interval_days 30 < pv_timestamp v"
      by (simp add: recentViews_def)
    ultimately show "\<exists>v\<in>set ?rows. pv_productId v = productId r
                \<and> pv_timestamp v = lastViewed ?rows (productId r)
                \<and> now - interval_days 30 < pv_timestamp v" by blast
  qed
  have order: "\<forall>i j. i \<le> j \<and> j < length results \<longrightarrow>
                lastViewed ?rows (productId (results ! j)) \<le> lastViewed ?rows (productId (results ! i))"
  proof (intro allI impI)
    fix i j assume ij: "i \<le> j \<and> j < length results"
    then have "snd (?L ! j) \<le> snd (?L ! i)" using recentlyViewedRows_sorted len by simp
    moreover have "i < length ?L" "j < length ?L" using ij len by auto
    ultimately show "lastViewed ?rows (productId (results ! j)) \<le> lastViewed ?rows (productId (results ! i))"
      using lv by simp
  qed
  from h sc mono first floor views order show ?thesis by (simp add: Let_def)
qed


lemma ex_recent_run:
  "generateRecentlyViewedRecommendations ex_views_state 1000 ex_request = Inr ex_recent"
  by (simp add: generateRecentlyViewedRecommendations_def getStoreDatabase_def getStore_def
      getStoreDbByUrl_def ex_views_state_def ex_request_def recentlyViewedQuery_rows
      recentlyViewedRows_def recentViews_def viewed_by_def truthy_def not_excluded_simps dflt_def
      interval_days_def group_by_def order_by_desc_def ex_view_def emptyDb_def ex_recent_def)

theorem recently_viewed_rank_scores_witness:
  "generateRecentlyViewedRecommendations ex_views_state 1000 ex_request = Inr ex_recent \<and>
   score (ex_recent ! 0) = 0.9 \<and> score (ex_recent ! 1) = 0.8 \<and> score (ex_recent ! 2) = 0.7 \<and>
   score (ex_recent ! 2) \<le> score (ex_recent ! 1)"
proof -
  have len: "length ex_recent = 3" by (simp add: ex_recent_def)
  from recently_viewed_rank_scores [OF ex_recent_run]
  have sc: "\<forall>i<length ex_recent. score (ex_recent ! i) = max (0.9 - 0.1 * real i) 0.1"
    and mono: "\<forall>i j. i \<le> j \<and> j < length ex_recent \<longrightarrow> score (ex_recent ! j) \<le> score (ex_recent ! i)"
    by blast+
  from sc [rule_format, of 0] sc [rule_format, of 1] sc [rule_format, of 2] mono [rule_format, of 1 2] len
  show ?thesis using ex_recent_run by simp
qed

section \<open>Hybrid scores stay below one\<close>

text \<open>
  C5 claims that some state and hybrid request give a product a merged score strictly
  above 1.0. No state does: there are no state, clock, request and returned entry with
  a score above 1.
\<close>

theorem hybrid_score_exceeds_one_refuted:
  "\<not> (\<exists>s now request r. r \<in> set (generateHybridRecommendations s now request) \<and> 1 < score r)"
proof
  assume "\<exists>s now request r. r \<in> set (generateHybridRecommendations s now request) \<and> 1 < score r"
  then obtain s now request r where "r \<in> set (generateHybridRecommendations s now request)" "1 < score r"
    by blast
  with hybrid_score_le [of r s now request] show False by simp
qed

text \<open>
  C5, as the code has it. The merged score is the plain sum of the weighted scores and is
  not renormalised, but it cannot pass 0.99: every strategy lists a product at most once,
  the collaborative, content-based and trending scores are at most 1 and the
  recently-viewed score is at most 0.9, so the sum is at most
  \<open>0.4 + 0.3 + 0.2 + 0.1 * 0.9\<close>.
\<close>

theorem hybrid_score_bound:
  "\<forall>r\<in>set (generateHybridRecommendations s now request). score r \<le> 0.99"
  using hybrid_score_le by blast

text \<open>
  In the example shop product 12 is recommended by three strategies and ends with
  \<open>0.4 * 0.1 + 0.3 * 1 + 0.2 * 1 = 0.54\<close>.
\<close>

theorem hybrid_score_bound_witness:
  "generateHybridRecommendations ex_shop 1000000000 (ex_shop_request None) = ex_hybrid \<and>
   score (hd ex_hybrid) = 0.4 * 0.1 + 0.3 * 1 + 0.2 * 1 \<and> score (hd ex_hybrid) \<le> 0.99"
proof -
  have "hd ex_hybrid \<in> set (generateHybridRecommendations ex_shop 1000000000 (ex_shop_request None))"
    by (simp add: ex_shop_hybrid ex_hybrid_def)
  with hybrid_score_bound [of ex_shop 1000000000 "ex_shop_request None"]
  have "score (hd ex_hybrid) \<le> 0.99" by blast
  moreover have "score (hd ex_hybrid) = 0.4 * 0.1 + 0.3 * 1 + 0.2 * 1" by (simp add: ex_hybrid_def)
  ultimately show ?thesis using ex_shop_hybrid by simp
qed

section \<open>Exclusions\<close>

text \<open>
  C3. Whatever the type of the request, no product of its \<open>excludeProductIds\<close> list is
  among the returned results. The list reaches every query as one joined parameter: a
  list of one id is filtered by the queries, and with two or more ids every query raises,
  so that the request returns the empty list.
\<close>

theorem excluded_products_not_returned:
  assumes "req_excludeProductIds request = Some excludeProductIds"
  shows "(\<forall>r\<in>set (generateRecommendations s now request). productId r \<notin> set excludeProductIds) \<and>
         (1 < length excludeProductIds \<longrightarrow> generateRecommendations s now request = [])"
proof -
  from assms have e: "dflt [] (req_excludeProductIds request) = excludeProductIds"
    by (simp add: dflt_def)
  from generateRecommendations_not_excluded [of _ s now request] e
  have "\<forall>r\<in>set (generateRecommendations s now request). productId r \<notin> set excludeProductIds"
    by simp
  moreover from generateRecommendations_many [of request s now] e
  have "1 < length excludeProductIds \<longrightarrow> generateRecommendations s now request = []" by simp
  ultimately show ?thesis by simp
qed

text \<open>
  Session \<open>s1\<close> of the example has viewed products 1, 2 and 3. With product 2 excluded
  the recently-viewed request returns 1 and 3; with products 2 and 3 excluded it returns
  nothing, although product 1 is not excluded.
\<close>

lemma ex_excluding_run:
  "generateRecommendations ex_views_state 1000 ex_excluding_request = ex_excluding_result"
  by (simp add: generateRecommendations_def generateRecentlyViewedRecommendations_def
      getStoreDatabase_def getStore_def getStoreDbByUrl_def ex_views_state_def
      ex_excluding_request_def recentlyViewedQuery_rows recentlyViewedRows_def recentViews_def
      viewed_by_def truthy_def not_excluded_simps sql_not_in_def dflt_def interval_days_def
      group_by_def order_by_desc_def ex_view_def emptyDb_def ex_excluding_result_def)

theorem excluded_products_not_returned_witness:
  "req_excludeProductIds ex_excluding_request = Some [2] \<and>
   generateRecommendations ex_views_state 1000 ex_excluding_request = ex_excluding_result \<and>
   map productId ex_excluding_result = [1, 3] \<and>
   productId (ex_excluding_result ! 0) \<notin> set [2] \<and> productId (ex_excluding_result ! 1) \<notin> set [2] \<and>
   req_excludeProductIds ex_excluding_two_request = Some [2, 3] \<and>
   generateRecommendations ex_views_state 1000 ex_excluding_two_request = [] \<and>
   map productId (generateRecommendations ex_views_state 1000
                    (ex_excluding_two_request\<lparr>req_excludeProductIds := None\<rparr>)) = [1, 2, 3]"
proof -
  have e: "req_excludeProductIds ex_excluding_request = Some [2]"
    by (simp add: ex_excluding_request_def)
  have e2: "req_excludeProductIds ex_excluding_two_request = Some [2, 3]"
    by (simp add: ex_excluding_two_request_def)
  have m: "ex_excluding_result ! 0 \<in> set ex_excluding_result"
    "ex_excluding_result ! 1 \<in> set ex_excluding_result"
    by (simp_all add: ex_excluding_result_def)
  from excluded_products_not_returned [OF e, of ex_views_state 1000] ex_excluding_run
  have "\<forall>r\<in>set ex_excluding_result. productId r \<notin> set [2]" by simp
  with m have "productId (ex_excluding_result ! 0) \<notin> set [2]"
    "productId (ex_excluding_result ! 1) \<notin> set [2]" by blast+
  moreover have "map productId ex_excluding_result = [1, 3]" by (simp add: ex_excluding_result_def)
  moreover from excluded_products_not_returned [OF e2, of ex_views_state 1000]
  have "generateRecommendations ex_views_state 1000 ex_excluding_two_request = []" by simp
  moreover have "map productId (generateRecommendations ex_views_state 1000
                    (ex_excluding_two_request\<lparr>req_excludeProductIds := None\<rparr>)) = [1, 2, 3]"
    by (simp add: generateRecommendations_def generateRecentlyViewedRecommendations_def
      getStoreDatabase_def getStore_def getStoreDbByUrl_def ex_views_state_def
      ex_excluding_two_request_def recentlyViewedQuery_rows recentlyViewedRows_def recentViews_def
      viewed_by_def truthy_def not_excluded_simps sql_not_in_def dflt_def interval_days_def
      group_by_def order_by_desc_def ex_view_def emptyDb_def)
  ultimately show ?thesis using e e2 ex_excluding_run by simp
qed

section \<open>The hybrid merge\<close>

text \<open>
  C1. Let the four strategies, each called with its share of the limit, return their
  lists. Then the hybrid result is the list of merged entries sorted by combined score,
  largest first, and cut to the requested limit (10 when none is given). Among the merged
  entries every product recommended by at least one strategy occurs exactly once; its
  type is \<open>hybrid\<close>; its score is the sum of the scores the strategies gave it, each
  multiplied by the strategy's weight (collaborative 0.4, content-based 0.3, trending
  0.2, recently-viewed 0.1), where every strategy lists a product at most once; and its
  reasons are the reasons of the contributing entries, in strategy order, without
  duplicates. The returned list holds each product at most once.
\<close>

theorem hybrid_merge_rule:
  assumes limit: "limit = dflt 10 (req_limit request)"
    and c: "generateCollaborativeRecommendations s
              (request\<lparr>req_limit := Some (nat \<lceil>real limit * 0.3\<rceil>)\<rparr>) = Inr collaborative"
    and cb: "generateContentBasedRecommendations s
              (request\<lparr>req_limit := Some (nat \<lceil>real limit * 0.3\<rceil>)\<rparr>) = Inr contentBased"
    and t: "generateTrendingRecommendations s now
              (request\<lparr>req_limit := Some (nat \<lceil>real limit * 0.2\<rceil>)\<rparr>) = Inr trending"
    and rv: "generateRecentlyViewedRecommendations s now
              (request\<lparr>req_limit := Some (nat \<lceil>real limit * 0.2\<rceil>)\<rparr>) = Inr recentlyViewed"
  shows
    "let merged = mergeRecommendations (allRecommendations collaborative contentBased trending recentlyViewed);
         results = generateHybridRecommendations s now request
     in results = take limit (order_by_desc score merged) \<and>
        length results \<le> limit \<and>
        (\<forall>i j. i \<le> j \<and> j < length results \<longrightarrow> score (results ! j) \<le> score (results ! i)) \<and>
        distinct (map productId results) \<and>
        set results \<subseteq> set merged \<and>
        distinct (map productId collaborative) \<and> distinct (map productId contentBased) \<and>
        distinct (map productId trending) \<and> distinct (map productId recentlyViewed) \<and>
        (\<forall>p\<in>productId ` (set collaborative \<union> set contentBased \<union> set trending \<union> set recentlyViewed).
            length (occurrences merged p) = 1) \<and>
        (\<forall>e\<in>set merged.
            productId e \<in> productId ` (set collaborative \<union> set contentBased \<union> set trending \<union> set recentlyViewed) \<and>
            type e = ''hybrid'' \<and>
            score e = sum_list (map score (occurrences collaborative (productId e))) * 0.4
                    + sum_list (map score (occurrences contentBased (productId e))) * 0.3
                    + sum_list (map score (occurrences trending (productId e))) * 0.2
                    + sum_list (map score (occurrences recentlyViewed (productId e))) * 0.1 \<and>
            reasons e = new_Set (concat (map reasons
                          (occurrences collaborative (productId e) @ occurrences contentBased (productId e)
                             @ occurrences trending (productId e) @ occurrences recentlyViewed (productId e)))))"
proof -
  let ?all = "allRecommendations collaborative contentBased trending recentlyViewed"
  let ?merged = "mergeRecommendations ?all"
  let ?results = "generateHybridRecommendations s now request"
  let ?ids = "productId ` (set collaborative \<union> set contentBased \<union> set trending \<union> set recentlyViewed)"
  from c obtain h where h: "getStoreDatabase s (req_storeId request) = Inr h"
    by (cases "getStoreDatabase s (req_storeId request)")
       (auto simp: generateCollaborativeRecommendations_def)
  have ceq: "collaborative = collaborativeQuery (databases s h)
               (request\<lparr>req_limit := Some (nat \<lceil>real limit * 0.3\<rceil>)\<rparr>)"
    using c h by (simp add: generateCollaborativeRecommendations_def)
  have cbeq: "contentBased = contentBasedQuery (databases s h)
               (request\<lparr>req_limit := Some (nat \<lceil>real limit * 0.3\<rceil>)\<rparr>)"
    using cb h by (simp add: generateContentBasedRecommendations_def)
  have teq: "trending = trendingQuery (databases s h) now
               (request\<lparr>req_limit := Some (nat \<lceil>real limit * 0.2\<rceil>)\<rparr>)"
    using t h by (simp add: generateTrendingRecommendations_def)
  have rveq: "recentlyViewed = recentlyViewedQuery (databases s h) now
               (request\<lparr>req_limit := Some (nat \<lceil>real limit * 0.2\<rceil>)\<rparr>)"
    using rv h by (simp add: generateRecentlyViewedRecommendations_def)
  have run: "?results = combine limit collaborative contentBased trending recentlyViewed"
    using h by (simp add: generateHybridRecommendations_eq limit ceq cbeq teq rveq)
  have 1: "?results = take limit (order_by_desc score ?merged)"
    by (simp add: run combine_def)
  have 2: "length ?results \<le> limit" by (simp add: 1)
  have 3: "\<forall>i j. i \<le> j \<and> j < length ?results \<longrightarrow> score (?results ! j) \<le> score (?results ! i)"
    unfolding run using combine_sorted by blast
  have 4: "distinct (map productId ?results)" unfolding run by (rule combine_distinct)
  have 5: "set ?results \<subseteq> set ?merged" unfolding run by (rule combine_subset)
  have 6: "distinct (map productId collaborative)" "distinct (map productId contentBased)"
    "distinct (map productId trending)" "distinct (map productId recentlyViewed)"
    by (simp_all add: ceq cbeq teq rveq collaborativeQuery_distinct contentBasedQuery_distinct
        trendingQuery_distinct recentlyViewedQuery_distinct)
  have ids: "productId ` set ?merged = ?ids"
  proof -
    have "productId ` set ?merged = set (map productId ?merged)" by simp
    also have "\<dots> = productId ` set ?all" by (simp only: mergeRecommendations_productIds set_new_Set set_map)
    also have "\<dots> = ?ids" by (simp add: allRecommendations_productIds image_Un)
    finally show ?thesis .
  qed
  have dm: "distinct (map productId ?merged)" by (simp add: mergeRecommendations_productIds)
  have 7: "\<forall>p\<in>?ids. length (occurrences ?merged p) = 1"
    using occurrences_exactly_one [OF dm] ids by blast
  have single: "\<forall>r\<in>set collaborative \<union> set contentBased \<union> set trending \<union> set recentlyViewed.
      distinct (reasons r)"
    using strategy_reasons_distinct by (auto simp: ceq cbeq teq rveq)
  have 8: "\<forall>e\<in>set ?merged.
            productId e \<in> ?ids \<and>
            type e = ''hybrid'' \<and>
            score e = sum_list (map score (occurrences collaborative (productId e))) * 0.4
                    + sum_list (map score (occurrences contentBased (productId e))) * 0.3
                    + sum_list (map score (occurrences trending (productId e))) * 0.2
                    + sum_list (map score (occurrences recentlyViewed (productId e))) * 0.1 \<and>
            reasons e = new_Set (concat (map reasons
                          (occurrences collaborative (productId e) @ occurrences contentBased (productId e)
                             @ occurrences trending (productId e) @ occurrences recentlyViewed (productId e))))"
  proof
    fix e assume e: "e \<in> set ?merged"
    then have "productId e \<in> ?ids" using ids by blast
    with merged_entry_of_strategies [OF e single]
    show "productId e \<in> ?ids \<and>
            type e = ''hybrid'' \<and>
            score e = sum_list (map score (occurrences collaborative (productId e))) * 0.4
                    + sum_list (map score (occurrences contentBased (productId e))) * 0.3
                    + sum_list (map score (occurrences trending (productId e))) * 0.2
                    + sum_list (map score (occurrences recentlyViewed (productId e))) * 0.1 \<and>
            reasons e = new_Set (concat (map reasons
                          (occurrences collaborative (productId e) @ occurrences contentBased (productId e)
                             @ occurrences trending (productId e) @ occurrences recentlyViewed (productId e))))"
      by blast
  qed
  from 1 2 3 4 5 6 7 8 show ?thesis unfolding Let_def by blast
qed


text \<open>
  In the example shop product 12 is recommended by the collaborative, the content-based
  and the trending strategy and product 10 by the recently-viewed one.
\<close>

lemma ex_shop_strategies:
  "generateCollaborativeRecommendations ex_shop
     ((ex_shop_request None)\<lparr>req_limit := Some (nat \<lceil>real (10::nat) * 0.3\<rceil>)\<rparr>) = Inr ex_collaborative"
  "generateContentBasedRecommendations ex_shop
     ((ex_shop_request None)\<lparr>req_limit := Some (nat \<lceil>real (10::nat) * 0.3\<rceil>)\<rparr>) = Inr ex_contentBased"
  "generateTrendingRecommendations ex_shop 1000000000
     ((ex_shop_request None)\<lparr>req_limit := Some (nat \<lceil>real (10::nat) * 0.2\<rceil>)\<rparr>) = Inr ex_trendingList"
  "generateRecentlyViewedRecommendations ex_shop 1000000000
     ((ex_shop_request None)\<lparr>req_limit := Some (nat \<lceil>real (10::nat) * 0.2\<rceil>)\<rparr>) = Inr ex_recentlyViewed"
  by (simp_all add: generateCollaborativeRecommendations_def generateContentBasedRecommendations_def
      generateTrendingRecommendations_def generateRecentlyViewedRecommendations_def
      ex_shop_request_sel ex_shop_db_of ex_collab ex_content ex_trending ex_recently
      ex_collaborative_def ex_contentBased_def ex_trendingList_def ex_recentlyViewed_def)

theorem hybrid_merge_rule_witness:
  "10 = dflt 10 (req_limit (ex_shop_request None)) \<and>
   generateCollaborativeRecommendations ex_shop
     ((ex_shop_request None)\<lparr>req_limit := Some (nat \<lceil>real (10::nat) * 0.3\<rceil>)\<rparr>) = Inr ex_collaborative \<and>
   generateContentBasedRecommendations ex_shop
     ((ex_shop_request None)\<lparr>req_limit := Some (nat \<lceil>real (10::nat) * 0.3\<rceil>)\<rparr>) = Inr ex_contentBased \<and>
   generateTrendingRecommendations ex_shop 1000000000
     ((ex_shop_request None)\<lparr>req_limit := Some (nat \<lceil>real (10::nat) * 0.2\<rceil>)\<rparr>) = Inr ex_trendingList \<and>
   generateRecentlyViewedRecommendations ex_shop 1000000000
     ((ex_shop_request None)\<lparr>req_limit := Some (nat \<lceil>real (10::nat) * 0.2\<rceil>)\<rparr>) = Inr ex_recentlyViewed \<and>
   generateHybridRecommendations ex_shop 1000000000 (ex_shop_request None) = ex_hybrid \<and>
   ex_hybrid = take 10 (order_by_desc score
       (mergeRecommendations
          (allRecommendations ex_collaborative ex_contentBased ex_trendingList ex_recentlyViewed))) \<and>
   length ex_hybrid \<le> 10 \<and> distinct (map productId ex_hybrid) \<and>
   map productId ex_hybrid = [12, 10] \<and>
   score (ex_hybrid ! 0) = (1 / 10) * 0.4 + 1 * 0.3 + 1 * 0.2 \<and>
   reasons (ex_hybrid ! 0) = [''Customers like you also purchased this'',
                              ''Similar to products you viewed'', ''Trending this week''] \<and>
   type (ex_hybrid ! 0) = ''hybrid''"
proof -
  have l: "10 = dflt 10 (req_limit (ex_shop_request None))" by (simp add: ex_shop_request_sel)
  note st = ex_shop_strategies
  from hybrid_merge_rule [OF l st(1) st(2) st(3) st(4)]
  have "ex_hybrid = take 10 (order_by_desc score
       (mergeRecommendations
          (allRecommendations ex_collaborative ex_contentBased ex_trendingList ex_recentlyViewed)))"
    and "length ex_hybrid \<le> 10" and "distinct (map productId ex_hybrid)"
    unfolding Let_def ex_shop_hybrid by blast+
  moreover have "map productId ex_hybrid = [12, 10]"
    "score (ex_hybrid ! 0) = (1 / 10) * 0.4 + 1 * 0.3 + 1 * 0.2"
    "reasons (ex_hybrid ! 0) = [''Customers like you also purchased this'',
                              ''Similar to products you viewed'', ''Trending this week'']"
    "type (ex_hybrid ! 0) = ''hybrid''"
    by (simp_all add: ex_hybrid_def)
  ultimately show ?thesis using l st ex_shop_hybrid by blast
qed

section \<open>The collaborative scenario\<close>

text \<open>
  C6 describes the customers by the products they purchased. The code counts purchase
  rows. In the first state customer 3 shares only product 10 with customer 1, but
  purchased it twice, so it counts as similar, and its purchase of product 12 is counted
  with that of customer 2. In the second state customer 2 purchased product 12 twice. In
  both the score of product 12 is 0.2. A request with limit 0 returns nothing, and so
  does the scenario with a product whose id is 0.
\<close>

theorem collaborative_scenario_refuted:
  "purchasedProducts ex_repeat_db 1 = {Some 10, Some 11} \<and>
   purchasedProducts ex_repeat_db 2 = {Some 10, Some 11, Some 12} \<and>
   purchasedProducts ex_repeat_db 3 \<inter> purchasedProducts ex_repeat_db 1 = {Some 10} \<and>
   set (map cb_customerId (customerBehavior ex_repeat_db)) = {Some 1, Some 2, Some 3} \<and>
   generateRecommendations (ex_shop_of ex_repeat_db) 1000 ex_collaborative_request
     = [\<lparr>productId = 12, score = 2 / 10, type = ''collaborative'',
         reasons = [''Customers like you also purchased this'']\<rparr>] \<and>
   purchasedProducts ex_twice_db 1 = {Some 10, Some 11} \<and>
   purchasedProducts ex_twice_db 2 = {Some 10, Some 11, Some 12} \<and>
   set (map cb_customerId (customerBehavior ex_twice_db)) = {Some 1, Some 2} \<and>
   generateRecommendations (ex_shop_of ex_twice_db) 1000 ex_collaborative_request
     = [\<lparr>productId = 12, score = 2 / 10, type = ''collaborative'',
         reasons = [''Customers like you also purchased this'']\<rparr>] \<and>
   (2 / 10 :: real) \<noteq> min (1 / 10) 1 \<and>
   purchasedProducts ex_zero_db 1 = {Some 10, Some 11} \<and>
   purchasedProducts ex_zero_db 2 = {Some 10, Some 11, Some 0} \<and>
   set (map cb_customerId (customerBehavior ex_zero_db)) = {Some 1, Some 2} \<and>
   generateRecommendations (ex_shop_of ex_zero_db) 1000 ex_collaborative_request = [] \<and>
   generateRecommendations (ex_shop_of ex_shop_db) 1000
     (ex_collaborative_request\<lparr>req_limit := Some 0\<rparr>) = []"
proof -
  have "set (map cb_customerId (customerBehavior ex_repeat_db)) = {Some 1, Some 2, Some 3}"
    "set (map cb_customerId (customerBehavior ex_twice_db)) = {Some 1, Some 2}"
    "set (map cb_customerId (customerBehavior ex_zero_db)) = {Some 1, Some 2}"
    by (simp_all add: ex_repeat_db_def ex_twice_db_def ex_zero_db_def ex_event_def emptyDb_def)
  moreover have "purchasedProducts ex_repeat_db 1 = {Some 10, Some 11}"
    "purchasedProducts ex_repeat_db 2 = {Some 10, Some 11, Some 12}"
    "purchasedProducts ex_repeat_db 3 \<inter> purchasedProducts ex_repeat_db 1 = {Some 10}"
    by (auto simp: purchasedProducts_def ex_repeat_purchased)
  moreover have "purchasedProducts ex_twice_db 1 = {Some 10, Some 11}"
    "purchasedProducts ex_twice_db 2 = {Some 10, Some 11, Some 12}"
    by (auto simp: purchasedProducts_def ex_twice_purchased)
  moreover have "purchasedProducts ex_zero_db 1 = {Some 10, Some 11}"
    "purchasedProducts ex_zero_db 2 = {Some 10, Some 11, Some 0}"
    by (auto simp: purchasedProducts_def ex_zero_purchased)
  moreover have "generateRecommendations (ex_shop_of ex_shop_db) 1000
     (ex_collaborative_request\<lparr>req_limit := Some 0\<rparr>) = []"
    by (simp add: ex_shop_of_run collaborativeQuery_limit_zero dflt_def)
  ultimately show ?thesis
    by (simp add: ex_shop_of_run ex_repeat_query ex_twice_query ex_zero_query)
qed

text \<open>
  C6, as the code has it. Customer \<open>C\<close> has purchased exactly \<open>A\<close> and \<open>B\<close>, customer \<open>D\<close>
  exactly \<open>A\<close>, \<open>B\<close> and \<open>X\<close>, the latter in one purchase row, and every other customer has
  at most one purchase row on \<open>A\<close> or \<open>B\<close>; the ids of \<open>C\<close> and \<open>X\<close> are not 0. Then a
  collaborative request for \<open>C\<close> without exclusions and with a positive limit returns
  exactly \<open>X\<close>, with the score \<open>min (1 / 10) 1 = 0.1\<close> and the one reason.
\<close>

theorem collaborative_scenario:
  assumes "getStoreDatabase s (req_storeId request) = Inr h"
    and "purchaseScenario (databases s h) C D A B X"
    and "req_type request = Some Collaborative"
    and "req_customerId request = Some C"
    and "dflt [] (req_excludeProductIds request) = []"
    and "0 < dflt 10 (req_limit request)"
  shows "generateRecommendations s now request
       = [\<lparr>productId = X, score = min (1 / 10) 1, type = ''collaborative'',
           reasons = [''Customers like you also purchased this'']\<rparr>] \<and>
     (min (1 / 10) 1 :: real) = 0.1"
proof -
  from assms(1,3) have "generateRecommendations s now request = collaborativeQuery (databases s h) request"
    by (simp add: generateRecommendations_def generateCollaborativeRecommendations_def dflt_def)
  with scenario_query [OF assms(2,4,5,6)] show ?thesis by simp
qed


theorem collaborative_scenario_witness:
  "getStoreDatabase ex_shop 1 = Inr ''db1'' \<and>
   purchaseScenario (databases ex_shop ''db1'') 1 2 10 11 12 \<and>
   generateRecommendations ex_shop 1000 ((ex_shop_request None)\<lparr>req_type := Some Collaborative\<rparr>)
     = [\<lparr>productId = 12, score = 1 / 10, type = ''collaborative'',
         reasons = [''Customers like you also purchased this'']\<rparr>]"
proof -
  let ?request = "(ex_shop_request None)\<lparr>req_type := Some Collaborative\<rparr>"
  have h: "getStoreDatabase ex_shop (req_storeId ?request) = Inr ''db1''"
    by (simp add: ex_shop_request_def ex_shop_db_of)
  have sc: "purchaseScenario (databases ex_shop ''db1'') 1 2 10 11 12"
    by (simp only: ex_shop_db_of ex_shop_scenario)
  have r: "req_type ?request = Some Collaborative" "req_customerId ?request = Some 1"
    "dflt [] (req_excludeProductIds ?request) = []" "0 < dflt 10 (req_limit ?request)"
    by (simp_all add: ex_shop_request_def dflt_def)
  from collaborative_scenario [OF h sc r, of 1000] h sc show ?thesis
    by (simp add: ex_shop_request_def)
qed

section \<open>Content-based scores\<close>




section \<open>Trending normalisation\<close>

text \<open>
  C8 on a behavior log that \<open>trackBehavior\<close> produces: five views without a product
  (the product id is optional) and three views of product 1, all within the week. The
  group of the rows without product has the largest total, 5, and is the first row of
  the query, so \<open>maxScore\<close> is 5; that group is then filtered out, and the only returned
  product, with total 3, gets the score \<open>3 / 5\<close> and not 1.
\<close>

theorem trending_top_score_below_one:
  "generateRecommendations (track_all ex_empty_shop 500 ex_anonymous_views) 1000 (ex_trending_request 1)
     = [\<lparr>productId = 1, score = 3 / 5, type = ''trending'', reasons = [''Trending this week'']\<rparr>]"
proof -
  have "trendingQuery ex_anonymous_db 1000 (ex_trending_request 1)
      = [\<lparr>productId = 1, score = 3 / 5, type = ''trending'', reasons = [''Trending this week'']\<rparr>]"
    unfolding trendingQuery_rows Let_def ex_anonymous_products
    by (simp add: maxScore_def)
  moreover have "getStoreDatabase
       (ex_empty_shop\<lparr>databases := (databases ex_empty_shop)(''db1'' := ex_anonymous_db)\<rparr>)
       (req_storeId (ex_trending_request 1)) = Inr ''db1''"
    by (simp add: getStoreDatabase_def getStore_def getStoreDbByUrl_def ex_empty_shop_def
        ex_trending_request_def)
  moreover have "dflt Hybrid (req_type (ex_trending_request 1)) = Trending"
    by (simp add: ex_trending_request_def dflt_def)
  ultimately show ?thesis
    unfolding ex_anonymous_state
    by (simp add: generateRecommendations_def generateTrendingRecommendations_def)
qed

section \<open>Tenants on one database\<close>

text \<open>
  C2 on two stores whose databases were set up by \<open>createStoreDatabase\<close>: both rows get
  the URL of the environment, so both stores resolve to the same database. Before any
  tracking the trending request of store 2 is empty; after three views of product 7 are
  tracked under store 1, the same request of store 2 returns product 7.
\<close>

theorem tenant_isolation_broken:
  "getStoreDatabase ex_provisioned 1 = getStoreDatabase ex_provisioned 2 \<and>
   generateRecommendations ex_provisioned 1000 (ex_trending_request 2) = [] \<and>
   generateRecommendations
     (track_all ex_provisioned 500 (map (ex_track 1 None) [Some 7, Some 7, Some 7]))
     1000 (ex_trending_request 2)
     = [\<lparr>productId = 7, score = 1, type = ''trending'', reasons = [''Trending this week'']\<rparr>]"
proof -
  have t: "dflt Hybrid (req_type (ex_trending_request 2)) = Trending"
    and sid: "req_storeId (ex_trending_request 2) = 2"
    by (simp_all add: ex_trending_request_def dflt_def)
  have before: "trendingQuery (databases ex_provisioned ''main'') 1000 (ex_trending_request 2) = []"
    by (simp add: trendingQuery_rows trendingProducts_def trendingEvents_def group_by_def
        order_by_desc_def ex_provisioned_eq ex_two_stores_def emptyDb_def Let_def)
  have events: "trendingEvents (emptyDb\<lparr>products := [7],
          customerBehavior := [ex_tracked_row (Some 7), ex_tracked_row (Some 7), ex_tracked_row (Some 7)]\<rparr>) 1000 (ex_trending_request 2)
      = [ex_tracked_row (Some 7), ex_tracked_row (Some 7), ex_tracked_row (Some 7)]"
    by (simp add: trendingEvents_def emptyDb_def ex_tracked_row_def ex_trending_request_def
        not_excluded_simps dflt_def interval_days_def)
  have prods: "trendingProducts (emptyDb\<lparr>products := [7],
          customerBehavior := [ex_tracked_row (Some 7), ex_tracked_row (Some 7), ex_tracked_row (Some 7)]\<rparr>) 1000 (ex_trending_request 2)
      = [(Some 7, 3)]"
    unfolding trendingProducts_def events
    by (simp add: group_by_def order_by_desc_def totalScore_def eventScore_def ex_tracked_row_def
        ex_trending_request_def dflt_def)
  have after: "trendingQuery (emptyDb\<lparr>products := [7],
          customerBehavior := [ex_tracked_row (Some 7), ex_tracked_row (Some 7), ex_tracked_row (Some 7)]\<rparr>) 1000 (ex_trending_request 2)
      = [\<lparr>productId = 7, score = 1, type = ''trending'', reasons = [''Trending this week'']\<rparr>]"
    unfolding trendingQuery_rows Let_def prods by (simp add: maxScore_def)
  have h2: "getStoreDatabase (with_events ex_provisioned ''main'' rows) 2 = Inr ''main''" for rows
    by (simp only: getStoreDatabase_with_events ex_provisioned_handles)
  show ?thesis
    unfolding ex_provisioned_tracked
    by (simp add: generateRecommendations_def generateTrendingRecommendations_def t sid h2
        ex_provisioned_handles ex_shared_db before after)
qed

end
